theory Spec2Isabelle
  imports Main
begin

section \<open>Errors\<close>

text \<open>
  A Go \<^verbatim>\<open>error\<close> value. \<^verbatim>\<open>errors.New\<close> and \<^verbatim>\<open>fmt.Errorf\<close> build an error
  that is its message; the two sentinel errors of package \<^verbatim>\<open>context\<close> are values of
  their own. Errors coming back from the Docker client, the operating system or a
  library are whatever the environment hands over.
\<close>

datatype error = ErrorString string | Canceled | DeadlineExceeded

fun Error :: "error \<Rightarrow> string" where
  "Error (ErrorString s) = s"
| "Error Canceled = ''context canceled''"
| "Error DeadlineExceeded = ''context deadline exceeded''"

definition errors_New :: "string \<Rightarrow> error" where
  "errors_New msg = ErrorString msg"

text \<open>\<^verbatim>\<open>fmt.Errorf(prefix + "%v", err)\<close>: the prefix followed by the message of \<open>err\<close>.\<close>

definition Errorf :: "string \<Rightarrow> error \<Rightarrow> error" where
  "Errorf prefix err = ErrorString (prefix @ Error err)"

definition ErrEmptyClusterName :: string where
  "ErrEmptyClusterName = ''empty cluster name''"

definition ErrEmptyNetworkName :: string where
  "ErrEmptyNetworkName = ''empty network name''"

definition ErrInvalidManagersCount :: string where
  "ErrInvalidManagersCount = ''invalid manager count, must be >= 1''"

definition ErrInvalidWorkerCount :: string where
  "ErrInvalidWorkerCount = ''invalid worker count, must be >= 0''"

definition ErrPrimaryNodeNotBound :: string where
  "ErrPrimaryNodeNotBound = ''primary node is not exposing docker daemon port''"

definition defaultSwarmListenAddr :: string where
  "defaultSwarmListenAddr = ''0.0.0.0:2377''"

definition DefaultNodeImageName :: string where
  "DefaultNodeImageName = ''docker:18.09-dind''"

section \<open>Cluster parameters\<close>

text \<open>
  \<^verbatim>\<open>Managers\<close> and \<^verbatim>\<open>Workers\<close> are Go \<^verbatim>\<open>int\<close>s. The code only compares them
  with constants and subtracts one from a count that validation has shown to be at
  least one, so no operation on them can wrap and they are kept as integers.
\<close>

record CreateClusterParams =
  ClusterName :: string
  NetworkName :: string
  NetworkSubnet :: string
  Managers :: int
  Workers :: int
  ImageName :: string
  PullImage :: bool
  PortBindings :: "string list"

definition validate :: "CreateClusterParams \<Rightarrow> error option" where
  "validate n =
     (if ClusterName n = [] then Some (errors_New ErrEmptyClusterName)
      else if NetworkName n = [] then Some (errors_New ErrEmptyNetworkName)
      else if Managers n < 1 then Some (errors_New ErrInvalidManagersCount)
      else if Workers n < 0 then Some (errors_New ErrInvalidWorkerCount)
      else None)"

definition managersToRun :: "CreateClusterParams \<Rightarrow> int" where
  "managersToRun n = Managers n - 1"

definition imageName :: "CreateClusterParams \<Rightarrow> string" where
  "imageName n = (if ImageName n \<noteq> [] then ImageName n else DefaultNodeImageName)"

section \<open>Formatting and the name generator\<close>

text \<open>Decimal digits of a natural number, as \<^verbatim>\<open>%d\<close> prints them.\<close>

definition digit :: "nat \<Rightarrow> char" where
  "digit d = char_of (48 + d)"

fun decimal :: "nat \<Rightarrow> string" where
  "decimal n = (if n < 10 then [digit n] else decimal (n div 10) @ [digit (n mod 10)])"

declare decimal.simps [simp del]

definition itoa :: "int \<Rightarrow> string" where
  "itoa i = (if i < 0 then CHR ''-'' # decimal (nat (- i)) else decimal (nat i))"

text \<open>
  \<^verbatim>\<open>fmt.Sprintf(format, i)\<close> with the single \<^verbatim>\<open>int\<close> operand \<open>i\<close>, for the
  directives this development meets: ordinary bytes are copied, \<^verbatim>\<open>%%\<close> prints a
  percent sign and takes no operand, \<^verbatim>\<open>%d\<close> prints the operand in decimal,
  \<^verbatim>\<open>%T\<close> prints its type, a verb that finds no operand left prints
  \<^verbatim>\<open>%!verb(MISSING)\<close>, and an operand that no verb has used is reported at the end
  as \<^verbatim>\<open>%!(EXTRA int=i)\<close>. The flag \<open>used\<close> says whether the operand is consumed.
  Any other directive (flags, widths, indexes, other verbs) is outside this fragment:
  the result is then \<open>None\<close>.
\<close>

fun doPrintf :: "string \<Rightarrow> int \<Rightarrow> bool \<Rightarrow> string option" where
  "doPrintf [] i used =
     Some (if used then [] else ''%!(EXTRA int='' @ itoa i @ '')'')"
| "doPrintf [c] i used =
     (if c = CHR ''%'' then None else Some (c # (if used then [] else ''%!(EXTRA int='' @ itoa i @ '')'')))"
| "doPrintf (c # v # fmt) i used =
     (if c \<noteq> CHR ''%'' then map_option ((#) c) (doPrintf (v # fmt) i used)
      else if v = CHR ''%'' then map_option ((#) CHR ''%'') (doPrintf fmt i used)
      else if v = CHR ''d'' then
        (if used then map_option ((@) ''%!d(MISSING)'') (doPrintf fmt i True)
         else map_option ((@) (itoa i)) (doPrintf fmt i True))
      else if v = CHR ''T'' then
        (if used then map_option ((@) ''%!T(MISSING)'') (doPrintf fmt i True)
         else map_option ((@) ''int'') (doPrintf fmt i True))
      else None)"

text \<open>
  \<open>Sprintf\<close> is total: a format outside the fragment above is rendered by the
  parameter \<open>other\<close>, about which nothing is assumed.
\<close>

definition Sprintf :: "(string \<Rightarrow> int \<Rightarrow> string) \<Rightarrow> string \<Rightarrow> int \<Rightarrow> string" where
  "Sprintf other fmt i = (case doPrintf fmt i False of Some s \<Rightarrow> s | None \<Rightarrow> other fmt i)"

record nameGenerator =
  pattern :: string
  index :: int

text \<open>\<^verbatim>\<open>generateName\<close> returns the name and the generator with its index advanced.\<close>

definition generateName :: "(string \<Rightarrow> int \<Rightarrow> string) \<Rightarrow> nameGenerator \<Rightarrow> string \<times> nameGenerator" where
  "generateName other n = (Sprintf other (pattern n) (index n), n\<lparr>index := index n + 1\<rparr>)"

section \<open>The environment\<close>

text \<open>
  Modelled from the spec: the role labels \<^verbatim>\<open>primaryNode\<close>, \<^verbatim>\<open>managerNode\<close> and
  \<^verbatim>\<open>workerNode\<close> that the code puts on node containers are constants declared
  elsewhere in the package; they are kept as the three values of the node role.
\<close>

datatype role_label = primaryNode | managerNode | workerNode

text \<open>
  The calls the program makes on the Docker client, the standard library and the
  operating system, with the arguments that matter to the orchestration.
\<close>

datatype call =
    ImageList string
  | ImagePull string
  | NetworkCreate string "string option" string
  | ContainerCreate string string string role_label
  | ContainerStart string
  | ContainerInspect string
  | Ping
  | SwarmInit string
  | SwarmInspect
  | ContainerExecCreate string "string list"
  | ContainerExecStart string
  | NodeList
  | TempFile string
  | ImageSave "string list"
  | ContainerList
  | OsOpen string
  | CopyToContainer string string
  | OsRemove string

text \<open>
  An event of a run: a call made by the calling goroutine, or a call made inside a
  task handed to an \<^verbatim>\<open>errgroup\<close> with \<^verbatim>\<open>Go\<close>. The tasks of one group run
  concurrently; a run lists their events task by task, in the order the tasks were
  handed over, which is one of the interleavings the scheduler may produce.
\<close>

datatype event = Call call | Go call

text \<open>
  One iteration of \<^verbatim>\<open>select\<close> in a poller: the ticker fired and the query made on
  that tick answered \<open>r\<close>, or the context's \<^verbatim>\<open>Done\<close> channel was chosen and
  \<^verbatim>\<open>ctx.Err()\<close> is the error given.
\<close>

datatype 'r select = TickerC 'r | CtxDone error

text \<open>A member of the swarm as \<^verbatim>\<open>NodeList\<close> reports it: role and state.\<close>

record Node =
  Role :: string
  State :: string

definition NodeStateReady :: string where
  "NodeStateReady = ''ready''"

definition NodeRoleManager :: string where
  "NodeRoleManager = ''manager''"

definition NodeRoleWorker :: string where
  "NodeRoleWorker = ''worker''"

datatype prepare_step = SaveCopy | Seek | Stat | WriteHeader | TarCopy | TarClose

text \<open>
  Everything outside the program answers through this record: one field per call, keyed
  by the call's arguments; the two pollers read the outcome of their \<open>k\<close>-th
  \<^verbatim>\<open>select\<close> from \<open>pings\<close> and \<open>nodeLists\<close>; \<open>prepareStep\<close> answers the file
  operations of \<^verbatim>\<open>prepareArchive\<close> and \<open>copied\<close> is the byte count an
  \<^verbatim>\<open>io.Copy\<close> reports; \<open>containerPath\<close> is
  \<^verbatim>\<open>filepath.Join("/", filepath.Base(name))\<close>. \<open>execExitCode\<close> is the exit status
  the Docker engine records for an exec instance; it is what
  \<^verbatim>\<open>ContainerExecInspect\<close> would report, and no call of the program reads it.
\<close>

record env =
  newClient :: "string option \<Rightarrow> error option"
  daemonHost :: string
  urlParse :: "string \<Rightarrow> error + string \<times> string"
  parsePortSpecs :: "string list \<Rightarrow> error option"
  sprintfOther :: "string \<Rightarrow> int \<Rightarrow> string"
  imageList :: "string \<Rightarrow> error + nat"
  imagePull :: "string \<Rightarrow> error option"
  pullDrain :: "string \<Rightarrow> error option"
  networkCreate :: "string \<Rightarrow> error + string"
  containerCreate :: "string \<Rightarrow> error + string"
  containerStart :: "string \<Rightarrow> error option"
  containerInspect :: "string \<Rightarrow> error + (string \<Rightarrow> string list option)"
  pings :: "nat \<Rightarrow> error option select"
  swarmInit :: "error option"
  swarmInspect :: "error + string \<times> string"
  execCreate :: "string \<Rightarrow> string list \<Rightarrow> error + string"
  execStart :: "string \<Rightarrow> error option"
  execExitCode :: "string \<Rightarrow> int"
  nodeLists :: "nat \<Rightarrow> (error + Node list) select"
  tempFile :: "string \<Rightarrow> error + string"
  imageSave :: "string list \<Rightarrow> error option"
  prepareStep :: "prepare_step \<Rightarrow> error option"
  copied :: "prepare_step \<Rightarrow> int"
  containerPath :: "string \<Rightarrow> string"
  containerList :: "error + string list"
  osOpen :: "string \<Rightarrow> error option"
  copyToContainerCall :: "string \<Rightarrow> string \<Rightarrow> error option"

section \<open>Runs\<close>

text \<open>
  What a function that may panic gives back: its value, the error of an early
  \<^verbatim>\<open>return ..., err\<close>, or a run-time panic. A run is the list of events it issued with
  that outcome; \<open>None\<close> is a run that never returns.
\<close>

datatype 'a res = Ok 'a | Err error | Panic

type_synonym 'a io = "(event list \<times> 'a res) option"

definition ret :: "'a \<Rightarrow> 'a io" where
  "ret x = Some ([], Ok x)"

definition emit :: "event list \<Rightarrow> 'a io \<Rightarrow> 'a io" where
  "emit evs m = map_option (\<lambda>(t, r). (evs @ t, r)) m"

text \<open>Sequencing: the rest of the function runs only when the step gave a value.\<close>

definition andThen :: "'a io \<Rightarrow> ('a \<Rightarrow> 'b io) \<Rightarrow> 'b io" where
  "andThen m k =
     (case m of
        None \<Rightarrow> None
      | Some (t, Ok x) \<Rightarrow> emit t (k x)
      | Some (t, Err e) \<Rightarrow> Some (t, Err e)
      | Some (t, Panic) \<Rightarrow> Some (t, Panic))"

text \<open>A step that cannot panic and always returns: its events and its Go result.\<close>

definition step :: "event list \<times> (error + 'a) \<Rightarrow> 'a io" where
  "step s =
     (case s of
        (t, Inl err) \<Rightarrow> Some (t, Err err)
      | (t, Inr x) \<Rightarrow> Some (t, Ok x))"

text \<open>
  \<^verbatim>\<open>x, err := m; if err != nil { return nil, fmt.Errorf(prefix + "%v", err) }\<close>
\<close>

definition orReturn :: "string \<Rightarrow> 'a io \<Rightarrow> 'a io" where
  "orReturn prefix m =
     (case m of
        None \<Rightarrow> None
      | Some (t, Ok x) \<Rightarrow> Some (t, Ok x)
      | Some (t, Err err) \<Rightarrow> Some (t, Err (Errorf prefix err))
      | Some (t, Panic) \<Rightarrow> Some (t, Panic))"

text \<open>The calls of a helper that runs on the calling goroutine.\<close>

definition calls :: "call list \<times> 'a \<Rightarrow> event list \<times> 'a" where
  "calls s = (map Call (fst s), snd s)"

definition check :: "error option \<Rightarrow> error + unit" where
  "check r = (case r of Some err \<Rightarrow> Inl err | None \<Rightarrow> Inr ())"

section \<open>The error group\<close>

text \<open>
  \<^verbatim>\<open>errgroup.Group\<close>: every task handed to \<^verbatim>\<open>Go\<close> runs, and \<^verbatim>\<open>Wait\<close> returns
  once all of them are over, with the first error recorded. Which failing task records
  its error first is the scheduler's choice; the model takes the first in the order of
  the \<^verbatim>\<open>Go\<close> calls.
\<close>

fun errgroup_Wait :: "error option list \<Rightarrow> error option" where
  "errgroup_Wait [] = None"
| "errgroup_Wait (Some err # rs) = Some err"
| "errgroup_Wait (None # rs) = errgroup_Wait rs"

definition errgroup_Go :: "(call list \<times> 'a) list \<Rightarrow> event list" where
  "errgroup_Go tasks = concat (map (\<lambda>task. map Go (fst task)) tasks)"

section \<open>Helpers of \<^verbatim>\<open>CreateCluster\<close>\<close>

definition imageAlreadyExist :: "env \<Rightarrow> string \<Rightarrow> call list \<times> bool" where
  "imageAlreadyExist e name =
     ([ImageList name],
      (case imageList e name of
         Inl err \<Rightarrow> False
       | Inr len \<Rightarrow> if len > 0 then True else False))"

partial_function (option) waitDaemonReady ::
    "(nat \<Rightarrow> error option select) \<Rightarrow> nat \<Rightarrow> event list \<Rightarrow> (event list \<times> error option) option" where
  "waitDaemonReady sel k t =
     (case sel k of
        TickerC r \<Rightarrow>
          (case r of
             Some err \<Rightarrow> waitDaemonReady sel (k + 1) (t @ [Call Ping])
           | None \<Rightarrow> Some (t @ [Call Ping], None))
      | CtxDone err \<Rightarrow> Some (t, Some err))"

declare waitDaemonReady.simps [code]

fun countNodesLoop :: "Node list \<Rightarrow> int \<Rightarrow> int \<Rightarrow> int \<times> int" where
  "countNodesLoop [] managersCount workersCount = (managersCount, workersCount)"
| "countNodesLoop (node # nodes) managersCount workersCount =
     (if State node \<noteq> NodeStateReady then countNodesLoop nodes managersCount workersCount
      else if Role node = NodeRoleManager then countNodesLoop nodes (managersCount + 1) workersCount
      else if Role node = NodeRoleWorker then countNodesLoop nodes managersCount (workersCount + 1)
      else countNodesLoop nodes managersCount workersCount)"

definition countNodesPerRole :: "Node list \<Rightarrow> int \<times> int" where
  "countNodesPerRole nodes = countNodesLoop nodes 0 0"

text \<open>
  The body of one tick of \<^verbatim>\<open>waitClusterReady\<close>: \<open>True\<close> when the tick ends the
  poll with \<^verbatim>\<open>return nil\<close>, \<open>False\<close> when it ends in \<^verbatim>\<open>continue\<close>.
\<close>

definition clusterReadyTick :: "error + Node list \<Rightarrow> int \<Rightarrow> int \<Rightarrow> bool" where
  "clusterReadyTick r expectedManagers expectedWorkers =
     (case r of
        Inl err \<Rightarrow> False
      | Inr nodes \<Rightarrow>
          (case countNodesPerRole nodes of
             (managers, workers) \<Rightarrow>
               if managers \<noteq> expectedManagers then False
               else if workers \<noteq> expectedWorkers then False
               else True))"

partial_function (option) waitClusterReady ::
    "(nat \<Rightarrow> (error + Node list) select) \<Rightarrow> int \<Rightarrow> int \<Rightarrow> nat \<Rightarrow> event list
       \<Rightarrow> (event list \<times> error option) option" where
  "waitClusterReady sel expectedManagers expectedWorkers k t =
     (case sel k of
        TickerC r \<Rightarrow>
          (if clusterReadyTick r expectedManagers expectedWorkers
           then Some (t @ [Call NodeList], None)
           else waitClusterReady sel expectedManagers expectedWorkers (k + 1) (t @ [Call NodeList]))
      | CtxDone err \<Rightarrow> Some (t, Some err))"

declare waitClusterReady.simps [code]

definition execContainer :: "env \<Rightarrow> string \<Rightarrow> string list \<Rightarrow> call list \<times> error option" where
  "execContainer e cID cmd =
     (case execCreate e cID cmd of
        Inl err \<Rightarrow> ([ContainerExecCreate cID cmd], Some err)
      | Inr execID \<Rightarrow>
          ([ContainerExecCreate cID cmd, ContainerExecStart execID], execStart e execID))"

definition runContainer ::
    "env \<Rightarrow> string \<Rightarrow> string \<Rightarrow> role_label \<Rightarrow> string \<Rightarrow> call list \<times> (error + string)" where
  "runContainer e img netID role name =
     (case containerCreate e name of
        Inl err \<Rightarrow> ([ContainerCreate name img netID role], Inl err)
      | Inr cid \<Rightarrow>
          (case containerStart e cid of
             Some err \<Rightarrow> ([ContainerCreate name img netID role, ContainerStart cid], Inl err)
           | None \<Rightarrow> ([ContainerCreate name img netID role, ContainerStart cid], Inr cid)))"

text \<open>
  The loop of \<^verbatim>\<open>runContainers\<close> draws the names one after another from its own copy
  of the generator (the parameter is passed by value), before the tasks run.
\<close>

fun generateNames :: "(string \<Rightarrow> int \<Rightarrow> string) \<Rightarrow> nat \<Rightarrow> nameGenerator \<Rightarrow> string list" where
  "generateNames other 0 nameGen = []"
| "generateNames other (Suc k) nameGen =
     (case generateName other nameGen of
        (cName, nameGen') \<Rightarrow> cName # generateNames other k nameGen')"

fun taskErr :: "error + 'a \<Rightarrow> error option" where
  "taskErr (Inl err) = Some err"
| "taskErr (Inr x) = None"

fun received :: "(error + 'a) list \<Rightarrow> 'a list" where
  "received [] = []"
| "received (Inl err # rs) = received rs"
| "received (Inr x # rs) = x # received rs"

text \<open>
  \<^verbatim>\<open>make(chan string, totalToCreate)\<close> panics on a negative size. The identifiers
  come out of the channel in the order the tasks sent them; the model lists them in the
  order of the tasks.
\<close>

definition runContainers ::
    "env \<Rightarrow> int \<Rightarrow> string \<Rightarrow> string \<Rightarrow> role_label \<Rightarrow> nameGenerator \<Rightarrow> string list io" where
  "runContainers e totalToCreate img netID role nameGen =
     (if totalToCreate < 0 then Some ([], Panic)
      else
        let tasks = map (runContainer e img netID role)
                        (generateNames (sprintfOther e) (nat totalToCreate) nameGen)
        in (case errgroup_Wait (map (\<lambda>task. taskErr (snd task)) tasks) of
              Some err \<Rightarrow> Some (errgroup_Go tasks, Err err)
            | None \<Rightarrow> Some (errgroup_Go tasks, Ok (received (map snd tasks)))))"

definition swarmPort :: "(string \<Rightarrow> string list option) \<Rightarrow> error + string" where
  "swarmPort ports =
     (case ports ''2375/tcp'' of
        None \<Rightarrow> Inl (errors_New ErrPrimaryNodeNotBound)
      | Some boundsPorts \<Rightarrow>
          (case boundsPorts of
             [] \<Rightarrow> Inl (errors_New ErrPrimaryNodeNotBound)
           | hostPort # rest \<Rightarrow> Inr hostPort))"

definition swarmHost :: "env \<Rightarrow> error + string" where
  "swarmHost e =
     (case urlParse e (daemonHost e) of
        Inl err \<Rightarrow> Inl err
      | Inr (scheme, host) \<Rightarrow>
          if scheme = ''unix'' then Inr ''localhost''
          else Inr (takeWhile (\<lambda>c. c \<noteq> CHR '':'') host))"

text \<open>\<^verbatim>\<open>net.JoinHostPort\<close>: a host holding a colon is put in square brackets.\<close>

definition JoinHostPort :: "string \<Rightarrow> string \<Rightarrow> string" where
  "JoinHostPort host port =
     (if CHR '':'' \<in> set host then ''['' @ host @ '']:'' @ port else host @ '':'' @ port)"

definition joinCommand :: "string \<Rightarrow> string \<Rightarrow> string list" where
  "joinCommand token managerAddr = [''docker'', ''swarm'', ''join'', ''--token'', token, managerAddr]"

text \<open>A poller as a step of the caller: it may never return.\<close>

definition poll :: "(event list \<times> error option) option \<Rightarrow> unit io" where
  "poll m = (case m of None \<Rightarrow> None | Some (t, r) \<Rightarrow> step (t, check r))"

section \<open>\<^verbatim>\<open>CreateCluster\<close>\<close>

text \<open>
  Modelled from the spec: the types \<^verbatim>\<open>Cluster\<close>, \<^verbatim>\<open>Swarm\<close> and \<^verbatim>\<open>Docker\<close> are
  declared elsewhere in the package; the records hold the fields that the literal at the
  end of \<^verbatim>\<open>CreateCluster\<close> fills in (cluster name, control-plane host and port, host
  endpoint).
\<close>

record Swarm =
  swarm_Host :: string
  swarm_Port :: string

record Docker =
  docker_Host :: string

record Cluster =
  cluster_Name :: string
  cluster_Cluster :: Swarm
  cluster_Host :: Docker

text \<open>The subnet configuration handed to \<^verbatim>\<open>NetworkCreate\<close>: none when no subnet is asked for.\<close>

definition ipam :: "CreateClusterParams \<Rightarrow> string option" where
  "ipam params = (if NetworkSubnet params \<noteq> [] then Some (NetworkSubnet params) else None)"

definition CreateCluster :: "env \<Rightarrow> CreateClusterParams \<Rightarrow> Cluster io" where
  "CreateCluster e params =
     andThen (orReturn ''invalid configuration: '' (step ([], check (validate params)))) (\<lambda>_.
     andThen (orReturn ''unable to create docker client: '' (step ([], check (newClient e None)))) (\<lambda>_.
     andThen (Some (map_prod id Ok (calls (imageAlreadyExist e (imageName params))))) (\<lambda>imageExist.
     andThen
       (if PullImage params \<or> \<not> imageExist then
          andThen
            (orReturn (''unable to pull the '' @ imageName params @ '' image: '')
               (step ([Call (ImagePull (imageName params))], check (imagePull e (imageName params))))) (\<lambda>_.
            orReturn (''unable to pull the '' @ imageName params @ '' image: '')
              (step ([], check (pullDrain e (imageName params)))))
        else ret ()) (\<lambda>_.
     andThen
       (orReturn ''unable to create cluster network: ''
          (step ([Call (NetworkCreate (NetworkName params) (ipam params) (ClusterName params))],
                 networkCreate e (NetworkName params)))) (\<lambda>sindNetID.
     andThen
       (orReturn ''unable to define port bindings: ''
          (step ([], check (parsePortSpecs e (PortBindings params))))) (\<lambda>_.
     let managerNameGenerator = \<lparr>pattern = ClusterName params @ ''-manager-%d'', index = 0\<rparr>;
         workerNameGenerator = \<lparr>pattern = ClusterName params @ ''-worker-%d'', index = 0\<rparr>
     in
     case generateName (sprintfOther e) managerNameGenerator of
       (primaryNodeName, managerNameGenerator) \<Rightarrow>
     andThen
       (orReturn ''unable to create the primary node: ''
          (step (calls (runContainer e (imageName params) sindNetID primaryNode primaryNodeName)))) (\<lambda>primaryNodeCID.
     andThen
       (orReturn ''unable to get the primary node informations: ''
          (step ([Call (ContainerInspect primaryNodeCID)], containerInspect e primaryNodeCID))) (\<lambda>primaryNodeInfo.
     andThen
       (orReturn ''unable to get the remote docker daemon port: ''
          (step ([], swarmPort primaryNodeInfo))) (\<lambda>swarmPort'.
     andThen
       (orReturn ''unable to get the remote docker daemon host: ''
          (step ([], swarmHost e))) (\<lambda>swarmHost'.
     andThen
       (orReturn ''unable to create manager nodes: ''
          (runContainers e (managersToRun params) (imageName params) sindNetID managerNode
             managerNameGenerator)) (\<lambda>managerNodeCIDs.
     andThen
       (orReturn ''unable to create worker nodes: ''
          (runContainers e (Workers params) (imageName params) sindNetID workerNode
             workerNameGenerator)) (\<lambda>workerNodeCIDs.
     andThen
       (orReturn ''unable to create swarm client: ''
          (step ([], check (newClient e (Some (''tcp://'' @ swarmHost' @ '':'' @ swarmPort')))))) (\<lambda>_.
     andThen
       (orReturn ''unable to connect to the swarm cluster: ''
          (poll (waitDaemonReady (pings e) 0 []))) (\<lambda>_.
     andThen
       (orReturn ''unable to init the swarm: ''
          (step ([Call (SwarmInit defaultSwarmListenAddr)], check (swarmInit e)))) (\<lambda>_.
     andThen
       (orReturn ''unable to collect join tokens: ''
          (step ([Call SwarmInspect], swarmInspect e))) (\<lambda>(managerToken, workerToken).
     if length primaryNodeCID < 12 then Some ([], Panic)
     else
     let managerAddr = JoinHostPort (take 12 primaryNodeCID) ''2377'';
         tasks = map (\<lambda>cid. execContainer e cid (joinCommand managerToken managerAddr)) managerNodeCIDs
               @ map (\<lambda>cid. execContainer e cid (joinCommand workerToken managerAddr)) workerNodeCIDs
     in
     andThen
       (orReturn ''unable to build the cluster: ''
          (step (errgroup_Go tasks, check (errgroup_Wait (map snd tasks))))) (\<lambda>_.
     andThen
       (orReturn ''unable to check swarm cluste: ''
          (poll (waitClusterReady (nodeLists e) (Managers params) (Workers params) 0 []))) (\<lambda>_.
     ret \<lparr>cluster_Name = ClusterName params,
          cluster_Cluster = \<lparr>swarm_Host = swarmHost', swarm_Port = swarmPort'\<rparr>,
          cluster_Host = \<lparr>docker_Host = daemonHost e\<rparr>\<rparr>))))))))))))))))))"

section \<open>\<^verbatim>\<open>PushImage\<close>\<close>

text \<open>\<^verbatim>\<open>defer\<close>: the deferred calls run last, whatever the function returns.\<close>

definition deferCall :: "event list \<Rightarrow> 'a io \<Rightarrow> 'a io" where
  "deferCall evs m = map_option (\<lambda>(t, r). (t @ evs, r)) m"

definition copyToContainer :: "env \<Rightarrow> string \<Rightarrow> string \<Rightarrow> call list \<times> error option" where
  "copyToContainer e filePath containerID =
     (case osOpen e filePath of
        Some err \<Rightarrow> ([OsOpen filePath], Some (Errorf ''unable to open file to deploy: '' err))
      | None \<Rightarrow>
          ([OsOpen filePath, CopyToContainer containerID filePath],
           (case copyToContainerCall e containerID filePath of
              Some err \<Rightarrow>
                Some (Errorf (''unable to copy the image to container '' @ containerID @ '': '') err)
            | None \<Rightarrow> None)))"

definition prepareArchive :: "env \<Rightarrow> string list \<Rightarrow> (string \<times> string) io" where
  "prepareArchive e refs =
     andThen
       (orReturn ''unable to create the image file: ''
          (step ([Call (TempFile ''img_sind'')], tempFile e ''img_sind''))) (\<lambda>imgsFile.
     deferCall [Call (OsRemove imgsFile)] (
     andThen
       (orReturn ''unable to save the images to disk: ''
          (step ([Call (ImageSave refs)], check (imageSave e refs)))) (\<lambda>_.
     andThen
       (orReturn (''unable to save the images to disk (copied '' @ itoa (copied e SaveCopy) @ ''): '')
          (step ([], check (prepareStep e SaveCopy)))) (\<lambda>_.
     andThen
       (orReturn ''unable to seek to the begining of the image file: ''
          (step ([], check (prepareStep e Seek)))) (\<lambda>_.
     andThen
       (orReturn ''unable to create the tar file: ''
          (step ([Call (TempFile ''tar_img_sind'')], tempFile e ''tar_img_sind''))) (\<lambda>tarImgsFile.
     andThen
       (orReturn ''unabel to collect images file info: ''
          (step ([], check (prepareStep e Stat)))) (\<lambda>_.
     andThen
       (orReturn ''unable to write tar file header: ''
          (step ([], check (prepareStep e WriteHeader)))) (\<lambda>_.
     andThen
       (orReturn (''unable to tar image files (wrote '' @ itoa (copied e TarCopy) @ ''): '')
          (step ([], check (prepareStep e TarCopy)))) (\<lambda>_.
     andThen
       (orReturn (''unable to close the tar writer properly (wrote '' @ itoa (copied e TarCopy) @ ''): '')
          (step ([], check (prepareStep e TarClose)))) (\<lambda>_.
     ret (containerPath e imgsFile, tarImgsFile)))))))))))"

definition loadCommand :: "string \<Rightarrow> string list" where
  "loadCommand imageContainerPath = [''docker'', ''load'', ''-i'', imageContainerPath]"

text \<open>
  \<^verbatim>\<open>c.Host.Client()\<close> and \<^verbatim>\<open>c.ContainerList(ctx)\<close> are methods declared elsewhere
  in the package; the environment answers them (\<open>newClient\<close> on the host endpoint of the
  cluster, \<open>containerList\<close> with the identifiers of the cluster's containers).
\<close>

definition PushImage :: "env \<Rightarrow> Cluster \<Rightarrow> string list \<Rightarrow> unit io" where
  "PushImage e c refs =
     andThen
       (orReturn ''unable to get host client: ''
          (step ([], check (newClient e (Some (docker_Host (cluster_Host c))))))) (\<lambda>_.
     andThen
       (orReturn ''unable to prepare the archive: '' (prepareArchive e refs)) (\<lambda>(imageContainerPath, archivePath).
     deferCall [Call (OsRemove archivePath)] (
     andThen
       (orReturn ''unable to get container list ''
          (step ([Call ContainerList], containerList e))) (\<lambda>containers.
     let copies = map (\<lambda>cID. copyToContainer e archivePath cID) containers in
     andThen
       (orReturn ''unable to deploy the image to host: ''
          (step (errgroup_Go copies, check (errgroup_Wait (map snd copies))))) (\<lambda>_.
     let loads = map (\<lambda>cID. execContainer e cID (loadCommand imageContainerPath)) containers in
     andThen
       (orReturn ''unable to load the image on the host: ''
          (step (errgroup_Go loads, check (errgroup_Wait (map snd loads))))) (\<lambda>_.
     ret ()))))))"

section \<open>A sample environment\<close>

text \<open>
  A host on which every call succeeds: the daemon of the primary answers the third
  ping, and the third membership listing shows three ready managers and two ready
  workers (and one worker that is down).
\<close>

definition readyNode :: "string \<Rightarrow> Node" where
  "readyNode r = \<lparr>Role = r, State = NodeStateReady\<rparr>"

definition sampleNodes :: "Node list" where
  "sampleNodes =
     [readyNode NodeRoleManager, readyNode NodeRoleWorker, readyNode NodeRoleManager,
      \<lparr>Role = NodeRoleWorker, State = ''down''\<rparr>, readyNode NodeRoleWorker,
      readyNode NodeRoleManager]"

definition sampleEnv :: env where
  "sampleEnv =
     \<lparr>newClient = (\<lambda>host. None),
      daemonHost = ''unix:///var/run/docker.sock'',
      urlParse = (\<lambda>u. Inr (''unix'', [])),
      parsePortSpecs = (\<lambda>specs. None),
      sprintfOther = (\<lambda>fmt i. []),
      imageList = (\<lambda>name. Inr 1),
      imagePull = (\<lambda>name. None),
      pullDrain = (\<lambda>name. None),
      networkCreate = (\<lambda>name. Inr (''net-'' @ name)),
      containerCreate = (\<lambda>name. Inr (''0123456789ab-'' @ name)),
      containerStart = (\<lambda>cid. None),
      containerInspect = (\<lambda>cid. Inr (\<lambda>port. if port = ''2375/tcp'' then Some [''32768''] else None)),
      pings = (\<lambda>k. if k < 2 then TickerC (Some (ErrorString ''connection refused'')) else TickerC None),
      swarmInit = None,
      swarmInspect = Inr (''SWMTKN-manager'', ''SWMTKN-worker''),
      execCreate = (\<lambda>cid cmd. Inr (''exec-'' @ cid)),
      execStart = (\<lambda>execID. None),
      execExitCode = (\<lambda>execID. 0),
      nodeLists = (\<lambda>k. if k = 0 then TickerC (Inl (ErrorString ''not a swarm manager''))
                         else if k = 1 then TickerC (Inr [readyNode NodeRoleManager])
                         else TickerC (Inr sampleNodes)),
      tempFile = (\<lambda>prefix. Inr (''/tmp/'' @ prefix @ ''42'')),
      imageSave = (\<lambda>refs. None),
      prepareStep = (\<lambda>s. None),
      copied = (\<lambda>s. 0),
      containerPath = (\<lambda>name. ''/'' @ drop 5 name),
      containerList = Inr [''c1'', ''c2'', ''c3''],
      osOpen = (\<lambda>path. None),
      copyToContainerCall = (\<lambda>cid path. None)\<rparr>"

definition sampleParams :: CreateClusterParams where
  "sampleParams =
     \<lparr>ClusterName = ''sind'', NetworkName = ''sind_default'', NetworkSubnet = [],
      Managers = 3, Workers = 2, ImageName = [], PullImage = False, PortBindings = []\<rparr>"

definition sampleCluster :: Cluster where
  "sampleCluster =
     \<lparr>cluster_Name = ''sind'',
      cluster_Cluster = \<lparr>swarm_Host = ''localhost'', swarm_Port = ''32768''\<rparr>,
      cluster_Host = \<lparr>docker_Host = ''unix:///var/run/docker.sock''\<rparr>\<rparr>"

definition sampleJoin :: "string \<Rightarrow> string list" where
  "sampleJoin token = [''docker'', ''swarm'', ''join'', ''--token'', token, ''0123456789ab:2377'']"

definition sampleTrace :: "event list" where
  "sampleTrace =
   [Call (ImageList ''docker:18.09-dind''),
    Call (NetworkCreate ''sind_default'' None ''sind''),
    Call (ContainerCreate ''sind-manager-0'' ''docker:18.09-dind'' ''net-sind_default'' primaryNode),
    Call (ContainerStart ''0123456789ab-sind-manager-0''),
    Call (ContainerInspect ''0123456789ab-sind-manager-0''),
    Go (ContainerCreate ''sind-manager-1'' ''docker:18.09-dind'' ''net-sind_default'' managerNode),
    Go (ContainerStart ''0123456789ab-sind-manager-1''),
    Go (ContainerCreate ''sind-manager-2'' ''docker:18.09-dind'' ''net-sind_default'' managerNode),
    Go (ContainerStart ''0123456789ab-sind-manager-2''),
    Go (ContainerCreate ''sind-worker-0'' ''docker:18.09-dind'' ''net-sind_default'' workerNode),
    Go (ContainerStart ''0123456789ab-sind-worker-0''),
    Go (ContainerCreate ''sind-worker-1'' ''docker:18.09-dind'' ''net-sind_default'' workerNode),
    Go (ContainerStart ''0123456789ab-sind-worker-1''),
    Call Ping, Call Ping, Call Ping,
    Call (SwarmInit ''0.0.0.0:2377''),
    Call SwarmInspect,
    Go (ContainerExecCreate ''0123456789ab-sind-manager-1'' (sampleJoin ''SWMTKN-manager'')),
    Go (ContainerExecStart ''exec-0123456789ab-sind-manager-1''),
    Go (ContainerExecCreate ''0123456789ab-sind-manager-2'' (sampleJoin ''SWMTKN-manager'')),
    Go (ContainerExecStart ''exec-0123456789ab-sind-manager-2''),
    Go (ContainerExecCreate ''0123456789ab-sind-worker-0'' (sampleJoin ''SWMTKN-worker'')),
    Go (ContainerExecStart ''exec-0123456789ab-sind-worker-0''),
    Go (ContainerExecCreate ''0123456789ab-sind-worker-1'' (sampleJoin ''SWMTKN-worker'')),
    Go (ContainerExecStart ''exec-0123456789ab-sind-worker-1''),
    Call NodeList, Call NodeList, Call NodeList]"




text \<open>The sample host, on which every command run through exec exits with status 1.\<close>

definition failedCommandEnv :: env where
  "failedCommandEnv = sampleEnv\<lparr>execExitCode := (\<lambda>execID. 1)\<rparr>"

text \<open>The dispatch of an image-load command inside a container, from a task.\<close>

fun isLoadEvent :: "event \<Rightarrow> bool" where
  "isLoadEvent (Go (ContainerExecCreate cID cmd)) = (take 3 cmd = [''docker'', ''load'', ''-i''])"
| "isLoadEvent ev = False"

text \<open>
  The sample host with three cluster containers, and the same host refusing the copy
  into the second one; the events of \<^verbatim>\<open>PushImage\<close> on them up to the end of the copies.
\<close>

definition copyFailsEnv :: env where
  "copyFailsEnv =
     sampleEnv\<lparr>copyToContainerCall :=
        (\<lambda>cID path. if cID = ''c2'' then Some (ErrorString ''no space left on device'') else None)\<rparr>"

definition samplePush :: "event list" where
  "samplePush =
   [Call (TempFile ''img_sind''), Call (ImageSave [''alpine'']),
    Call (TempFile ''tar_img_sind''), Call (OsRemove ''/tmp/img_sind42''),
    Call ContainerList,
    Go (OsOpen ''/tmp/tar_img_sind42''), Go (CopyToContainer ''c1'' ''/tmp/tar_img_sind42''),
    Go (OsOpen ''/tmp/tar_img_sind42''), Go (CopyToContainer ''c2'' ''/tmp/tar_img_sind42''),
    Go (OsOpen ''/tmp/tar_img_sind42''), Go (CopyToContainer ''c3'' ''/tmp/tar_img_sind42'')]"

text \<open>
  Reading a run: what kind of call an event is, whether the calling goroutine made it
  (\<open>bySelf\<close>, a sequential call) or a task of an error group did (\<open>byTask\<close>, a
  concurrent call), and the commands dispatched into containers by tasks.
\<close>

fun isCreate :: "role_label \<Rightarrow> call \<Rightarrow> bool" where
  "isCreate role (ContainerCreate name img netID role') = (role' = role)"
| "isCreate role c = False"

fun isSwarmInit :: "call \<Rightarrow> bool" where
  "isSwarmInit (SwarmInit addr) = True"
| "isSwarmInit c = False"

fun isSwarmInspect :: "call \<Rightarrow> bool" where
  "isSwarmInspect SwarmInspect = True"
| "isSwarmInspect c = False"

fun isExec :: "call \<Rightarrow> bool" where
  "isExec (ContainerExecCreate cID cmd) = True"
| "isExec (ContainerExecStart execID) = True"
| "isExec c = False"

fun bySelf :: "(call \<Rightarrow> bool) \<Rightarrow> event \<Rightarrow> bool" where
  "bySelf P (Call c) = P c"
| "bySelf P (Go c) = False"

fun byTask :: "(call \<Rightarrow> bool) \<Rightarrow> event \<Rightarrow> bool" where
  "byTask P (Go c) = P c"
| "byTask P (Call c) = False"

fun execCreates :: "event list \<Rightarrow> (string \<times> string list) list" where
  "execCreates [] = []"
| "execCreates (Go (ContainerExecCreate cID cmd) # t) = (cID, cmd) # execCreates t"
| "execCreates (ev # t) = execCreates t"

text \<open>The sample host, on which closing the tar writer fails.\<close>

definition tarCloseFailsEnv :: env where
  "tarCloseFailsEnv =
     sampleEnv\<lparr>prepareStep :=
        (\<lambda>s. if s = TarClose then Some (ErrorString ''no space left on device'') else None)\<rparr>"

text \<open>
  The names under which a run asks for containers, in the order of the run, and the
  sample parameters with a cluster name that holds a formatting verb.
\<close>

fun containerNames :: "event list \<Rightarrow> string list" where
  "containerNames [] = []"
| "containerNames (Call (ContainerCreate name img netID role) # t) = name # containerNames t"
| "containerNames (Go (ContainerCreate name img netID role) # t) = name # containerNames t"
| "containerNames (ev # t) = containerNames t"

definition percentParams :: CreateClusterParams where
  "percentParams = sampleParams\<lparr>ClusterName := ''%T''\<rparr>"

text \<open>
  Reading the order of a run of \<^verbatim>\<open>CreateCluster\<close>. A call of either origin is
  classed by \<open>anyCall\<close>; the calls of the bootstrap (probe of the daemon, cluster
  initialization, token retrieval, commands in containers, membership listing) are set
  apart from those of the provisioning.
\<close>

fun anyCall :: "(call \<Rightarrow> bool) \<Rightarrow> event \<Rightarrow> bool" where
  "anyCall P (Call c) = P c"
| "anyCall P (Go c) = P c"

fun isPing :: "call \<Rightarrow> bool" where
  "isPing Ping = True"
| "isPing c = False"

fun isBootstrap :: "call \<Rightarrow> bool" where
  "isBootstrap Ping = True"
| "isBootstrap (SwarmInit addr) = True"
| "isBootstrap SwarmInspect = True"
| "isBootstrap (ContainerExecCreate cID cmd) = True"
| "isBootstrap (ContainerExecStart execID) = True"
| "isBootstrap NodeList = True"
| "isBootstrap c = False"

text \<open>
  The stages a run goes through, and the one event each stage accepts next: probes while
  provisioning is over and the daemon is awaited, the initialization only after a probe,
  the token retrieval only right after the initialization, commands in containers only
  once the tokens were asked for, membership listings last. An event out of turn is
  refused (\<open>None\<close>).
\<close>

datatype stage = Provisioning | Waiting | Initialized | TokensKnown | Joining | Converging

fun advance :: "stage \<Rightarrow> event \<Rightarrow> stage option" where
  "advance s (Call Ping) = (if s = Provisioning \<or> s = Waiting then Some Waiting else None)"
| "advance s (Call (SwarmInit addr)) = (if s = Waiting then Some Initialized else None)"
| "advance s (Call SwarmInspect) = (if s = Initialized then Some TokensKnown else None)"
| "advance s (Go (ContainerExecCreate cID cmd)) =
     (if s = TokensKnown \<or> s = Joining then Some Joining else None)"
| "advance s (Go (ContainerExecStart execID)) = (if s = Joining then Some Joining else None)"
| "advance s (Call NodeList) =
     (if s = TokensKnown \<or> s = Joining \<or> s = Converging then Some Converging else None)"
| "advance s (Call c) = (if s = Provisioning \<and> \<not> isBootstrap c then Some Provisioning else None)"
| "advance s (Go c) = (if s = Provisioning \<and> \<not> isBootstrap c then Some Provisioning else None)"

fun follows :: "stage \<Rightarrow> event list \<Rightarrow> stage option" where
  "follows s [] = Some s"
| "follows s (ev # t) = (case advance s ev of None \<Rightarrow> None | Some s' \<Rightarrow> follows s' t)"

fun rank :: "stage \<Rightarrow> nat" where
  "rank Provisioning = 0"
| "rank Waiting = 1"
| "rank Initialized = 2"
| "rank TokensKnown = 3"
| "rank Joining = 4"
| "rank Converging = 5"

text \<open>
  What is known of the environment once a run has reached a stage: from the
  initialization on, the wait for the daemon returned \<^verbatim>\<open>nil\<close>; from the first
  command in a container on, the token retrieval gave the tokens. \<open>staged\<close> says
  that every run of a computation started in stage \<open>s\<close> is accepted event by event,
  ends in a stage with these facts, and satisfies \<open>Q\<close> when it gives a value.
\<close>

definition reached :: "env \<Rightarrow> stage \<Rightarrow> bool" where
  "reached e s \<longleftrightarrow>
     (2 \<le> rank s \<longrightarrow> (\<exists>tD. waitDaemonReady (pings e) 0 [] = Some (tD, None)))
   \<and> (4 \<le> rank s \<longrightarrow> (\<exists>tokens. swarmInspect e = Inr tokens))"

definition staged :: "env \<Rightarrow> stage \<Rightarrow> 'a io \<Rightarrow> (stage \<Rightarrow> 'a \<Rightarrow> bool) \<Rightarrow> bool" where
  "staged e s m Q \<longleftrightarrow>
     (\<forall>t r. m = Some (t, r) \<longrightarrow>
        (\<exists>s'. follows s t = Some s' \<and> reached e s' \<and> (\<forall>x. r = Ok x \<longrightarrow> Q s' x)))"

text \<open>The sample host refusing to create the cluster network.\<close>

definition networkFailsEnv :: env where
  "networkFailsEnv =
     sampleEnv\<lparr>networkCreate := (\<lambda>name. Inl (ErrorString ''pool overlaps with other one on this address space''))\<rparr>"

section \<open>Properties\<close>

subsection \<open>Rules for runs\<close>

lemma check_simps [simp]: "check (Some err) = Inl err" "check None = Inr ()"
  by (simp_all add: check_def)

lemma emit_Nil [simp]: "emit [] m = m"
  by (cases m) (auto simp: emit_def)

lemma emit_None [simp]: "emit evs None = None"
  by (simp add: emit_def)

lemma emit_Some [simp]: "emit evs (Some (t, r)) = Some (evs @ t, r)"
  by (simp add: emit_def)

lemma emit_eq_Some: "emit evs m = Some (t, r) \<longleftrightarrow> (\<exists>t'. m = Some (t', r) \<and> t = evs @ t')"
  by (cases m) (auto simp: emit_def)

lemma step_simps [simp]:
  "step (t, Inl err) = Some (t, Err err)"
  "step (t, Inr x) = Some (t, Ok x)"
  by (simp_all add: step_def)

lemma orReturn_simps [simp]:
  "orReturn p None = None"
  "orReturn p (Some (t, Ok x)) = Some (t, Ok x)"
  "orReturn p (Some (t, Err err)) = Some (t, Err (Errorf p err))"
  "orReturn p (Some (t, Panic)) = Some (t, Panic)"
  by (simp_all add: orReturn_def)

lemma andThen_simps [simp]:
  "andThen None k = None"
  "andThen (Some (t, Ok x)) k = emit t (k x)"
  "andThen (Some (t, Err err)) k = Some (t, Err err)"
  "andThen (Some (t, Panic)) k = Some (t, Panic)"
  by (simp_all add: andThen_def)

lemma ret_simp [simp]: "ret x = Some ([], Ok x)"
  by (simp add: ret_def)

subsection \<open>Validation\<close>

text \<open>
  A helper: the run of the sample environment on the sample parameters, as it is
  computed from the definitions.
\<close>

lemma sample_run: "CreateCluster sampleEnv sampleParams = Some (sampleTrace, Ok sampleCluster)"
  by code_simp

text \<open>
  Claim C1. Whenever the cluster name is empty, the network name is empty, the manager
  count is below one or the worker count is negative, \<^verbatim>\<open>CreateCluster\<close> returns the
  error \<^verbatim>\<open>invalid configuration: reason\<close>, where the reason is one whose condition
  holds, and the run has issued no call at all: no image pull, no network creation, no
  container creation.
\<close>

theorem validation_failure_has_no_side_effect:
  assumes "ClusterName p = [] \<or> NetworkName p = [] \<or> Managers p < 1 \<or> Workers p < 0"
  shows "\<exists>reason. CreateCluster e p = Some ([], Err (ErrorString (''invalid configuration: '' @ reason)))
     \<and> ((reason = ErrEmptyClusterName \<and> ClusterName p = [])
       \<or> (reason = ErrEmptyNetworkName \<and> NetworkName p = [])
       \<or> (reason = ErrInvalidManagersCount \<and> Managers p < 1)
       \<or> (reason = ErrInvalidWorkerCount \<and> Workers p < 0))"
proof -
  from assms have "validate p \<noteq> None"
    by (auto simp: validate_def)
  then obtain err where v: "validate p = Some err"
    by auto
  have r: "CreateCluster e p = Some ([], Err (Errorf ''invalid configuration: '' err))"
    by (simp add: CreateCluster_def v)
  from v show ?thesis unfolding r
    by (auto simp: validate_def Errorf_def errors_New_def split: if_splits)
qed

theorem validation_failure_witness:
  "Managers (sampleParams\<lparr>Managers := 0\<rparr>) < 1
   \<and> CreateCluster sampleEnv (sampleParams\<lparr>Managers := 0\<rparr>)
       = Some ([], Err (ErrorString ''invalid configuration: invalid manager count, must be >= 1''))"
  using validation_failure_has_no_side_effect [of "sampleParams\<lparr>Managers := 0\<rparr>" sampleEnv]
  by (auto simp: sampleParams_def ErrEmptyClusterName_def ErrEmptyNetworkName_def
      ErrInvalidManagersCount_def ErrInvalidWorkerCount_def)

subsection \<open>Convergence\<close>

lemma countNodesLoop_eq:
  "countNodesLoop nodes m w =
     (m + int (length (filter (\<lambda>n. State n = NodeStateReady \<and> Role n = NodeRoleManager) nodes)),
      w + int (length (filter (\<lambda>n. State n = NodeStateReady \<and> Role n = NodeRoleWorker) nodes)))"
  by (induction nodes arbitrary: m w) (auto simp: NodeRoleManager_def NodeRoleWorker_def)

text \<open>
  Claim C4. On a tick whose membership listing is \<open>nodes\<close>, the counts are the number
  of ready managers and the number of ready workers (a node that is not ready counts
  for neither role), and the convergence poller returns \<^verbatim>\<open>nil\<close> on that tick exactly
  when the two counts equal the requested manager and worker counts; otherwise it goes
  on to the next \<^verbatim>\<open>select\<close>.
\<close>

theorem convergence_iff_ready_counts_match:
  assumes "sel k = TickerC (Inr nodes)"
  shows "countNodesPerRole nodes =
       (int (length (filter (\<lambda>n. State n = NodeStateReady \<and> Role n = NodeRoleManager) nodes)),
        int (length (filter (\<lambda>n. State n = NodeStateReady \<and> Role n = NodeRoleWorker) nodes)))
    \<and> waitClusterReady sel m w k t =
       (if int (length (filter (\<lambda>n. State n = NodeStateReady \<and> Role n = NodeRoleManager) nodes)) = m
         \<and> int (length (filter (\<lambda>n. State n = NodeStateReady \<and> Role n = NodeRoleWorker) nodes)) = w
        then Some (t @ [Call NodeList], None)
        else waitClusterReady sel m w (k + 1) (t @ [Call NodeList]))"
  using assms
  by (subst waitClusterReady.simps) (auto simp: countNodesPerRole_def countNodesLoop_eq clusterReadyTick_def)

theorem convergence_witness:
  "nodeLists sampleEnv 2 = TickerC (Inr sampleNodes)
   \<and> countNodesPerRole sampleNodes = (3, 2)
   \<and> waitClusterReady (nodeLists sampleEnv) 3 2 2 [] = Some ([Call NodeList], None)
   \<and> waitClusterReady (nodeLists sampleEnv) 3 3 2 [] = waitClusterReady (nodeLists sampleEnv) 3 3 3 [Call NodeList]"
  using convergence_iff_ready_counts_match [of "nodeLists sampleEnv" 2 sampleNodes 3 2 "[]"]
    convergence_iff_ready_counts_match [of "nodeLists sampleEnv" 2 sampleNodes 3 3 "[]"]
  by (simp add: sampleEnv_def sampleNodes_def readyNode_def NodeStateReady_def
      NodeRoleManager_def NodeRoleWorker_def)

subsection \<open>Image presence\<close>




subsection \<open>The readiness pollers\<close>


lemma waitDaemonReady_result:
  "waitDaemonReady ps k t = Some y \<Longrightarrow>
     \<exists>n. (\<forall>i<n. \<exists>qerr. ps (k + i) = TickerC (Some qerr))
       \<and> ((ps (k + n) = TickerC None \<and> y = (t @ replicate (Suc n) (Call Ping), None))
         \<or> (\<exists>cerr. ps (k + n) = CtxDone cerr \<and> y = (t @ replicate n (Call Ping), Some cerr)))"
proof (induction rule: waitDaemonReady.raw_induct [rotated 1, consumes 1])
  case (1 f ps k t y)
  show ?case
  proof (cases "ps k")
    case (CtxDone cerr)
    with 1(2) show ?thesis
      by (intro exI [of _ 0]) auto
  next
    case (TickerC q)
    show ?thesis
    proof (cases q)
      case None
      with TickerC 1(2) show ?thesis
        by (intro exI [of _ 0]) auto
    next
      case (Some qerr)
      with TickerC 1(2) have "f ps (k + 1) (t @ [Call Ping]) = Some y"
        by simp
      from 1(1) [OF this] obtain n where
        nd: "(\<forall>i<n. \<exists>qerr. ps (k + 1 + i) = TickerC (Some qerr))
         \<and> ((ps (k + 1 + n) = TickerC None \<and> y = ((t @ [Call Ping]) @ replicate (Suc n) (Call Ping), None))
         \<or> (\<exists>cerr. ps (k + 1 + n) = CtxDone cerr \<and> y = ((t @ [Call Ping]) @ replicate n (Call Ping), Some cerr)))" ..
      have a: "\<forall>i<Suc n. \<exists>qerr. ps (k + i) = TickerC (Some qerr)"
      proof (intro allI impI)
        fix i assume i: "i < Suc n"
        show "\<exists>qerr. ps (k + i) = TickerC (Some qerr)"
        proof (cases i)
          case 0
          with TickerC Some show ?thesis by simp
        next
          case (Suc j)
          with i have "j < n" by simp
          with nd have "\<exists>qerr. ps (k + 1 + j) = TickerC (Some qerr)" by simp
          with Suc show ?thesis by simp
        qed
      qed
      have e: "(t @ [Call Ping]) @ replicate m (Call Ping) = t @ replicate (Suc m) (Call Ping)" for m
        by (simp add: replicate_app_Cons_same)
      from nd have b: "(ps (k + Suc n) = TickerC None \<and> y = (t @ replicate (Suc (Suc n)) (Call Ping), None))
         \<or> (\<exists>cerr. ps (k + Suc n) = CtxDone cerr \<and> y = (t @ replicate (Suc n) (Call Ping), Some cerr))"
        unfolding e by simp
      from a b show ?thesis
        by (intro exI [of _ "Suc n"] conjI)
    qed
  qed
qed



lemma waitClusterReady_result:
  "waitClusterReady ns m w k t = Some y \<Longrightarrow>
     \<exists>n. (\<forall>i<n. \<exists>r. ns (k + i) = TickerC r \<and> \<not> clusterReadyTick r m w)
       \<and> ((\<exists>r. ns (k + n) = TickerC r \<and> clusterReadyTick r m w
              \<and> y = (t @ replicate (Suc n) (Call NodeList), None))
         \<or> (\<exists>cerr. ns (k + n) = CtxDone cerr \<and> y = (t @ replicate n (Call NodeList), Some cerr)))"
proof (induction rule: waitClusterReady.raw_induct [rotated 1, consumes 1])
  case (1 f ns m w k t y)
  show ?case
  proof (cases "ns k")
    case (CtxDone cerr)
    with 1(2) show ?thesis
      by (intro exI [of _ 0]) auto
  next
    case (TickerC r)
    show ?thesis
    proof (cases "clusterReadyTick r m w")
      case True
      with TickerC 1(2) show ?thesis
        by (intro exI [of _ 0]) auto
    next
      case False
      with TickerC 1(2) have "f ns m w (k + 1) (t @ [Call NodeList]) = Some y"
        by simp
      from 1(1) [OF this] obtain n where
        nd: "(\<forall>i<n. \<exists>r. ns (k + 1 + i) = TickerC r \<and> \<not> clusterReadyTick r m w)
         \<and> ((\<exists>r. ns (k + 1 + n) = TickerC r \<and> clusterReadyTick r m w
                \<and> y = ((t @ [Call NodeList]) @ replicate (Suc n) (Call NodeList), None))
         \<or> (\<exists>cerr. ns (k + 1 + n) = CtxDone cerr
                \<and> y = ((t @ [Call NodeList]) @ replicate n (Call NodeList), Some cerr)))" ..
      have a: "\<forall>i<Suc n. \<exists>r. ns (k + i) = TickerC r \<and> \<not> clusterReadyTick r m w"
      proof (intro allI impI)
        fix i assume i: "i < Suc n"
        show "\<exists>r. ns (k + i) = TickerC r \<and> \<not> clusterReadyTick r m w"
        proof (cases i)
          case 0
          with TickerC False show ?thesis by simp
        next
          case (Suc j)
          with i have "j < n" by simp
          with nd have "\<exists>r. ns (k + 1 + j) = TickerC r \<and> \<not> clusterReadyTick r m w" by simp
          with Suc show ?thesis by simp
        qed
      qed
      have e: "(t @ [Call NodeList]) @ replicate j (Call NodeList) = t @ replicate (Suc j) (Call NodeList)" for j
        by (simp add: replicate_app_Cons_same)
      from nd have b: "(\<exists>r. ns (k + Suc n) = TickerC r \<and> clusterReadyTick r m w
              \<and> y = (t @ replicate (Suc (Suc n)) (Call NodeList), None))
         \<or> (\<exists>cerr. ns (k + Suc n) = CtxDone cerr \<and> y = (t @ replicate (Suc n) (Call NodeList), Some cerr))"
        unfolding e by simp
      from a b show ?thesis
        by (intro exI [of _ "Suc n"] conjI)
    qed
  qed
qed



subsection \<open>Remote commands\<close>

text \<open>
  Claim C6 as stated fails. On a host where the exec instance of a join command is
  created and started without an API error while the command itself exits with status 1,
  \<^verbatim>\<open>execContainer\<close> returns \<^verbatim>\<open>nil\<close>: the exit status is never inspected.
\<close>

theorem failed_command_goes_unreported:
  "execCreate failedCommandEnv ''c1'' (joinCommand ''SWMTKN-worker'' ''0123456789ab:2377'') = Inr ''exec-c1''
   \<and> execExitCode failedCommandEnv ''exec-c1'' \<noteq> 0
   \<and> snd (execContainer failedCommandEnv ''c1'' (joinCommand ''SWMTKN-worker'' ''0123456789ab:2377'')) = None"
  by (simp add: failedCommandEnv_def sampleEnv_def execContainer_def)

text \<open>
  Claim C6, amended. \<^verbatim>\<open>execContainer\<close> issues the exec-create call and, when that
  call gives an exec instance, the exec-start call on that instance, in this order and
  nothing else; it returns only once the last of these calls has returned, with the error
  of the create call when that one fails and otherwise with the result of the start
  call. So it returns \<^verbatim>\<open>nil\<close> exactly when both calls return without error, and its
  result does not depend on the exit status of the command: a command that fails inside
  the container after a start call without error is not reported.
\<close>

theorem execContainer_reports_api_errors_only:
  "(\<forall>err. execCreate e cID cmd = Inl err
       \<longrightarrow> execContainer e cID cmd = ([ContainerExecCreate cID cmd], Some err))
   \<and> (\<forall>execID. execCreate e cID cmd = Inr execID
       \<longrightarrow> execContainer e cID cmd
            = ([ContainerExecCreate cID cmd, ContainerExecStart execID], execStart e execID))
   \<and> (snd (execContainer e cID cmd) = None
      \<longleftrightarrow> (\<exists>execID. execCreate e cID cmd = Inr execID \<and> execStart e execID = None))
   \<and> (\<forall>err. snd (execContainer e cID cmd) = Some err
      \<longleftrightarrow> execCreate e cID cmd = Inl err
          \<or> (\<exists>execID. execCreate e cID cmd = Inr execID \<and> execStart e execID = Some err))
   \<and> set (fst (execContainer e cID cmd)) \<subseteq> insert (ContainerExecCreate cID cmd) (range ContainerExecStart)
   \<and> execContainer (e\<lparr>execExitCode := status\<rparr>) cID cmd = execContainer e cID cmd"
  by (auto simp: execContainer_def split: sum.splits)

theorem execContainer_witness:
  "execCreate sampleEnv ''c1'' (loadCommand ''/img_sind42'') = Inr ''exec-c1''
   \<and> execContainer sampleEnv ''c1'' (loadCommand ''/img_sind42'')
     = ([ContainerExecCreate ''c1'' (loadCommand ''/img_sind42''), ContainerExecStart ''exec-c1''], None)
   \<and> execContainer (sampleEnv\<lparr>execExitCode := (\<lambda>execID. 1)\<rparr>) ''c1'' (loadCommand ''/img_sind42'')
     = ([ContainerExecCreate ''c1'' (loadCommand ''/img_sind42''), ContainerExecStart ''exec-c1''], None)
   \<and> execContainer (sampleEnv\<lparr>execStart := (\<lambda>execID. Some Canceled)\<rparr>) ''c1'' (loadCommand ''/img_sind42'')
     = ([ContainerExecCreate ''c1'' (loadCommand ''/img_sind42''), ContainerExecStart ''exec-c1''], Some Canceled)
   \<and> execContainer (sampleEnv\<lparr>execCreate := (\<lambda>cID cmd. Inl DeadlineExceeded)\<rparr>) ''c1'' (loadCommand ''/img_sind42'')
     = ([ContainerExecCreate ''c1'' (loadCommand ''/img_sind42'')], Some DeadlineExceeded)"
  using execContainer_reports_api_errors_only [of sampleEnv "''c1''" "loadCommand ''/img_sind42''" "\<lambda>execID. 1"]
    execContainer_reports_api_errors_only [of "sampleEnv\<lparr>execStart := (\<lambda>execID. Some Canceled)\<rparr>" "''c1''" "loadCommand ''/img_sind42''" "\<lambda>execID. 1"]
    execContainer_reports_api_errors_only [of "sampleEnv\<lparr>execCreate := (\<lambda>cID cmd. Inl DeadlineExceeded)\<rparr>" "''c1''" "loadCommand ''/img_sind42''" "\<lambda>execID. 1"]
  by (simp add: sampleEnv_def)

subsection \<open>Image distribution\<close>

lemma deferCall_simps [simp]:
  "deferCall evs None = None"
  "deferCall evs (Some (t, r)) = Some (t @ evs, r)"
  by (simp_all add: deferCall_def)

lemma deferCall_eq_Some: "deferCall evs m = Some (t, r) \<longleftrightarrow> (\<exists>t'. m = Some (t', r) \<and> t = t' @ evs)"
  by (cases m) (auto simp: deferCall_def)

lemma errgroup_Wait_None_iff: "errgroup_Wait rs = None \<longleftrightarrow> (\<forall>r\<in>set rs. r = None)"
  by (induction rs rule: errgroup_Wait.induct) auto

lemma errgroup_Go_Nil [simp]: "errgroup_Go [] = []"
  by (simp add: errgroup_Go_def)

lemma errgroup_Go_Cons [simp]: "errgroup_Go (task # tasks) = map Go (fst task) @ errgroup_Go tasks"
  by (simp add: errgroup_Go_def)

lemma errgroup_Go_append [simp]: "errgroup_Go (xs @ ys) = errgroup_Go xs @ errgroup_Go ys"
  by (simp add: errgroup_Go_def)

lemma no_load_in_copies [simp]:
  "filter isLoadEvent (errgroup_Go (map (copyToContainer e path) cs)) = []"
  by (induction cs) (auto simp: copyToContainer_def split: option.splits)

lemma no_load_in_calls [simp]: "filter isLoadEvent (map Call cs) = []"
  by (induction cs) auto

lemma andThen_orReturn_step:
  "andThen (orReturn p (step (t, v))) k =
     (case v of Inl err \<Rightarrow> Some (t, Err (Errorf p err)) | Inr x \<Rightarrow> emit t (k x))"
  by (cases v) simp_all

lemma case_check:
  "(case check v of Inl err \<Rightarrow> f err | Inr x \<Rightarrow> g x) = (case v of Some err \<Rightarrow> f err | None \<Rightarrow> g ())"
  by (cases v) simp_all

lemma prepareArchive_no_load:
  "prepareArchive e refs = Some (tp, r) \<Longrightarrow> filter isLoadEvent tp = []"
  by (auto simp: prepareArchive_def andThen_orReturn_step case_check emit_eq_Some deferCall_eq_Some
      split: sum.splits option.splits)

lemma prepareArchive_returns: "\<exists>tp r. prepareArchive e refs = Some (tp, r)"
  by (auto simp: prepareArchive_def andThen_orReturn_step case_check emit_eq_Some deferCall_eq_Some
      split: sum.splits option.splits)


lemma PushImage_unfold:
  "PushImage e c refs =
     (case newClient e (Some (docker_Host (cluster_Host c))) of
        Some err \<Rightarrow> Some ([], Err (Errorf ''unable to get host client: '' err))
      | None \<Rightarrow>
     (case prepareArchive e refs of
        None \<Rightarrow> None
      | Some (tp, Err err) \<Rightarrow> Some (tp, Err (Errorf ''unable to prepare the archive: '' err))
      | Some (tp, Panic) \<Rightarrow> Some (tp, Panic)
      | Some (tp, Ok (imageContainerPath, archivePath)) \<Rightarrow>
     (case containerList e of
        Inl err \<Rightarrow>
          Some (tp @ [Call ContainerList, Call (OsRemove archivePath)],
                Err (Errorf ''unable to get container list '' err))
      | Inr containers \<Rightarrow>
     (case errgroup_Wait (map snd (map (copyToContainer e archivePath) containers)) of
        Some err \<Rightarrow>
          Some (tp @ Call ContainerList # errgroup_Go (map (copyToContainer e archivePath) containers)
                   @ [Call (OsRemove archivePath)],
                Err (Errorf ''unable to deploy the image to host: '' err))
      | None \<Rightarrow>
     (case errgroup_Wait (map snd (map (\<lambda>cID. execContainer e cID (loadCommand imageContainerPath)) containers)) of
        Some err \<Rightarrow>
          Some (tp @ Call ContainerList # errgroup_Go (map (copyToContainer e archivePath) containers)
                   @ errgroup_Go (map (\<lambda>cID. execContainer e cID (loadCommand imageContainerPath)) containers)
                   @ [Call (OsRemove archivePath)],
                Err (Errorf ''unable to load the image on the host: '' err))
      | None \<Rightarrow>
          Some (tp @ Call ContainerList # errgroup_Go (map (copyToContainer e archivePath) containers)
                   @ errgroup_Go (map (\<lambda>cID. execContainer e cID (loadCommand imageContainerPath)) containers)
                   @ [Call (OsRemove archivePath)],
                Ok ()))))))"
  by (auto simp: PushImage_def andThen_orReturn_step case_check Let_def
      split: sum.splits option.splits res.splits prod.splits)


lemma sample_prepare:
  "prepareArchive sampleEnv [''alpine'']
     = Some (take 4 samplePush, Ok (''/img_sind42'', ''/tmp/tar_img_sind42''))"
  by code_simp

lemma sample_prepare_copyFails:
  "prepareArchive copyFailsEnv [''alpine'']
     = Some (take 4 samplePush, Ok (''/img_sind42'', ''/tmp/tar_img_sind42''))"
  by code_simp

lemma sample_push:
  "PushImage sampleEnv sampleCluster [''alpine'']
     = Some (samplePush
             @ [Go (ContainerExecCreate ''c1'' (loadCommand ''/img_sind42'')), Go (ContainerExecStart ''exec-c1''),
                Go (ContainerExecCreate ''c2'' (loadCommand ''/img_sind42'')), Go (ContainerExecStart ''exec-c2''),
                Go (ContainerExecCreate ''c3'' (loadCommand ''/img_sind42'')), Go (ContainerExecStart ''exec-c3''),
                Call (OsRemove ''/tmp/tar_img_sind42'')],
             Ok ())"
  by code_simp

lemma sample_push_copyFails:
  "PushImage copyFailsEnv sampleCluster [''alpine'']
     = Some (samplePush @ [Call (OsRemove ''/tmp/tar_img_sind42'')],
             Err (ErrorString ''unable to deploy the image to host: unable to copy the image to container c2: no space left on device''))"
  by code_simp

text \<open>
  Claim C8. In every run of \<^verbatim>\<open>PushImage\<close>: if a load command is dispatched at all,
  then the archive was prepared, the containers were listed, the copy into every listed
  container succeeded, and the run is the preparation, the listing and all the copies
  (none of them a load), then the loads, then the removal of the archive. And if the copy
  task of any listed container fails, \<^verbatim>\<open>PushImage\<close> returns an error and its run
  holds no load command.
\<close>

theorem loads_follow_all_copies:
  assumes "PushImage e c refs = Some (t, r)"
  shows "(filter isLoadEvent t \<noteq> [] \<longrightarrow>
          (\<exists>tp ipath apath cs.
              prepareArchive e refs = Some (tp, Ok (ipath, apath)) \<and> containerList e = Inr cs
            \<and> (\<forall>cID\<in>set cs. snd (copyToContainer e apath cID) = None)
            \<and> filter isLoadEvent (tp @ Call ContainerList # errgroup_Go (map (copyToContainer e apath) cs)) = []
            \<and> t = (tp @ Call ContainerList # errgroup_Go (map (copyToContainer e apath) cs))
                  @ errgroup_Go (map (\<lambda>cID. execContainer e cID (loadCommand ipath)) cs)
                  @ [Call (OsRemove apath)]))
       \<and> (\<forall>tp ipath apath cs cID.
              prepareArchive e refs = Some (tp, Ok (ipath, apath)) \<and> containerList e = Inr cs
            \<and> cID \<in> set cs \<and> snd (copyToContainer e apath cID) \<noteq> None
            \<longrightarrow> (\<exists>err. r = Err err) \<and> filter isLoadEvent t = [])"
proof (cases "newClient e (Some (docker_Host (cluster_Host c)))")
  case (Some err)
  with assms show ?thesis
    by (auto simp: PushImage_unfold)
next
  case None
  note client = this
  from assms obtain tp rp where prep: "prepareArchive e refs = Some (tp, rp)"
    by (auto simp: PushImage_unfold client split: option.splits)
  have tp: "filter isLoadEvent tp = []"
    using prep by (rule prepareArchive_no_load)
  show ?thesis
  proof (cases rp)
    case (Err err)
    with assms client prep tp show ?thesis
      by (auto simp: PushImage_unfold)
  next
    case Panic
    with assms client prep tp show ?thesis
      by (auto simp: PushImage_unfold)
  next
    case (Ok paths)
    obtain ipath apath where paths: "paths = (ipath, apath)"
      by (cases paths)
    show ?thesis
    proof (cases "containerList e")
      case (Inl err)
      with assms client prep tp Ok paths show ?thesis
        by (auto simp: PushImage_unfold)
    next
      case (Inr cs)
      show ?thesis
      proof (cases "errgroup_Wait (map snd (map (copyToContainer e apath) cs))")
        case (Some err)
        then have "errgroup_Wait (map snd (map (copyToContainer e apath) cs)) \<noteq> None"
          by simp
        then have "\<not> (\<forall>cID\<in>set cs. snd (copyToContainer e apath cID) = None)"
          unfolding errgroup_Wait_None_iff by simp
        with Some assms client prep tp Ok paths Inr show ?thesis
          by (auto simp: PushImage_unfold)
      next
        case None
        then have all: "\<forall>cID\<in>set cs. snd (copyToContainer e apath cID) = None"
          by (auto simp: errgroup_Wait_None_iff)
        with None assms client prep tp Ok paths Inr show ?thesis
          by (cases "errgroup_Wait (map snd (map (\<lambda>cID. execContainer e cID (loadCommand ipath)) cs))")
            (auto simp: PushImage_unfold)
      qed
    qed
  qed
qed


theorem loads_follow_all_copies_witness:
  "PushImage sampleEnv sampleCluster [''alpine'']
     = Some (samplePush
             @ [Go (ContainerExecCreate ''c1'' (loadCommand ''/img_sind42'')), Go (ContainerExecStart ''exec-c1''),
                Go (ContainerExecCreate ''c2'' (loadCommand ''/img_sind42'')), Go (ContainerExecStart ''exec-c2''),
                Go (ContainerExecCreate ''c3'' (loadCommand ''/img_sind42'')), Go (ContainerExecStart ''exec-c3''),
                Call (OsRemove ''/tmp/tar_img_sind42'')],
             Ok ())
   \<and> filter isLoadEvent samplePush = []
   \<and> snd (copyToContainer copyFailsEnv ''/tmp/tar_img_sind42'' ''c2'') \<noteq> None
   \<and> (\<exists>err. PushImage copyFailsEnv sampleCluster [''alpine'']
                 = Some (samplePush @ [Call (OsRemove ''/tmp/tar_img_sind42'')], Err err))
   \<and> filter isLoadEvent (samplePush @ [Call (OsRemove ''/tmp/tar_img_sind42'')]) = []"
proof -
  have c2: "snd (copyToContainer copyFailsEnv ''/tmp/tar_img_sind42'' ''c2'') \<noteq> None"
    by (simp add: copyToContainer_def copyFailsEnv_def sampleEnv_def)
  have cl: "containerList copyFailsEnv = Inr [''c1'', ''c2'', ''c3'']"
    by (simp add: copyFailsEnv_def sampleEnv_def)
  have "filter isLoadEvent samplePush = []"
    by (simp add: samplePush_def)
  moreover
  from loads_follow_all_copies [OF sample_push_copyFails, THEN conjunct2, rule_format,
      of "take 4 samplePush" "''/img_sind42''" "''/tmp/tar_img_sind42''" "[''c1'', ''c2'', ''c3'']" "''c2''"]
    sample_prepare_copyFails cl c2
  have "filter isLoadEvent (samplePush @ [Call (OsRemove ''/tmp/tar_img_sind42'')]) = []"
    by simp
  ultimately show ?thesis
    using sample_push sample_push_copyFails c2 by simp
qed

lemma copy_and_list_events [simp]:
  "Call (OsRemove p) \<notin> set (errgroup_Go tasks)"
  by (auto simp: errgroup_Go_def)

text \<open>
  The exit paths after the preparation. Once the host client is there and the archive
  has been prepared, every run of \<^verbatim>\<open>PushImage\<close> returns (on success, on a failed
  listing, on a failed copy and on a failed load alike), and the last thing it does is
  \<^verbatim>\<open>os.Remove\<close> of the archive; the archive is not removed earlier in the run.
\<close>

theorem archive_removed_on_every_exit:
  assumes "newClient e (Some (docker_Host (cluster_Host c))) = None"
    and "prepareArchive e refs = Some (tp, Ok (ipath, apath))"
  shows "\<exists>t' r. PushImage e c refs = Some (tp @ t' @ [Call (OsRemove apath)], r)
            \<and> Call (OsRemove apath) \<notin> set t'"
proof (cases "containerList e")
  case (Inl err)
  with assms show ?thesis
    by (intro exI [of _ "[Call ContainerList]"]) (simp add: PushImage_unfold)
next
  case (Inr cs)
  show ?thesis
  proof (cases "errgroup_Wait (map snd (map (copyToContainer e apath) cs))")
    case (Some err)
    with assms Inr show ?thesis
      by (intro exI [of _ "Call ContainerList # errgroup_Go (map (copyToContainer e apath) cs)"])
        (simp add: PushImage_unfold)
  next
    case None
    with assms Inr show ?thesis
      by (intro exI [of _ "Call ContainerList # errgroup_Go (map (copyToContainer e apath) cs)
              @ errgroup_Go (map (\<lambda>cID. execContainer e cID (loadCommand ipath)) cs)"])
        (cases "errgroup_Wait (map snd (map (\<lambda>cID. execContainer e cID (loadCommand ipath)) cs))";
          simp add: PushImage_unfold)
  qed
qed

theorem archive_removed_witness:
  "newClient copyFailsEnv (Some (docker_Host (cluster_Host sampleCluster))) = None
   \<and> prepareArchive copyFailsEnv [''alpine'']
       = Some (take 4 samplePush, Ok (''/img_sind42'', ''/tmp/tar_img_sind42''))
   \<and> PushImage copyFailsEnv sampleCluster [''alpine'']
       = Some (take 4 samplePush @ drop 4 samplePush @ [Call (OsRemove ''/tmp/tar_img_sind42'')],
               Err (ErrorString ''unable to deploy the image to host: unable to copy the image to container c2: no space left on device''))
   \<and> Call (OsRemove ''/tmp/tar_img_sind42'') \<notin> set (drop 4 samplePush)"
proof -
  have nc: "newClient copyFailsEnv (Some (docker_Host (cluster_Host sampleCluster))) = None"
    by (simp add: copyFailsEnv_def sampleEnv_def)
  from archive_removed_on_every_exit [OF nc sample_prepare_copyFails] nc sample_prepare_copyFails
    sample_push_copyFails
  show ?thesis
    by (simp add: samplePush_def)
qed

text \<open>
  The exit paths of \<^verbatim>\<open>prepareArchive\<close> itself are another matter: when a step after
  the creation of the tar file fails, the deferred calls close both files and remove the
  image file, and the tar file stays.
\<close>

lemma prepareArchive_leaves_tar_file_on_late_failure:
  assumes "tempFile e ''img_sind'' = Inr imgsFile" and "imageSave e refs = None"
    and "prepareStep e SaveCopy = None" and "prepareStep e Seek = None"
    and "tempFile e ''tar_img_sind'' = Inr tarImgsFile" and "prepareStep e Stat = Some err"
  shows "prepareArchive e refs
     = Some ([Call (TempFile ''img_sind''), Call (ImageSave refs), Call (TempFile ''tar_img_sind''),
              Call (OsRemove imgsFile)],
             Err (Errorf ''unabel to collect images file info: '' err))"
  using assms by (simp add: prepareArchive_def)

subsection \<open>Successful runs\<close>

lemma andThen_eq_Ok:
  "andThen m k = Some (t, Ok y) \<longleftrightarrow> (\<exists>t1 x t2. m = Some (t1, Ok x) \<and> k x = Some (t2, Ok y) \<and> t = t1 @ t2)"
  by (auto simp: andThen_def emit_eq_Some split: option.splits res.splits)

lemma orReturn_eq_Ok: "orReturn p m = Some (t, Ok x) \<longleftrightarrow> m = Some (t, Ok x)"
  by (auto simp: orReturn_def split: option.splits res.splits)

lemma step_eq_Ok: "step (t', v) = Some (t, Ok x) \<longleftrightarrow> t = t' \<and> v = Inr x"
  by (cases v) auto

lemma check_eq_Inr: "check v = Inr x \<longleftrightarrow> v = None"
  by (cases v) auto

lemma poll_eq_Ok: "poll m = Some (t, Ok x) \<longleftrightarrow> m = Some (t, None)"
  by (auto simp: poll_def check_def step_def split: option.splits)

lemma runContainers_eq_Ok:
  "runContainers e n img net role g = Some (t, Ok cids) \<longleftrightarrow>
     0 \<le> n
     \<and> errgroup_Wait (map (\<lambda>task. taskErr (snd task))
          (map (runContainer e img net role) (generateNames (sprintfOther e) (nat n) g))) = None
     \<and> t = errgroup_Go (map (runContainer e img net role) (generateNames (sprintfOther e) (nat n) g))
     \<and> cids = received (map snd (map (runContainer e img net role) (generateNames (sprintfOther e) (nat n) g)))"
  by (auto simp: runContainers_def Let_def split: option.splits)

lemma fst_imageAlreadyExist [simp]: "fst (imageAlreadyExist e name) = [ImageList name]"
  by (simp add: imageAlreadyExist_def)

lemma CreateCluster_Ok_run:
  assumes "CreateCluster e p = Some (t, Ok c)"
  shows "\<exists>net pcid mt wt tD tC ms ws.
      validate p = None
    \<and> networkCreate e (NetworkName p) = Inr net
    \<and> snd (runContainer e (imageName p) net primaryNode
             (Sprintf (sprintfOther e) (ClusterName p @ ''-manager-%d'') 0)) = Inr pcid
    \<and> ms = map (runContainer e (imageName p) net managerNode)
             (generateNames (sprintfOther e) (nat (managersToRun p))
                \<lparr>pattern = ClusterName p @ ''-manager-%d'', index = 1\<rparr>)
    \<and> ws = map (runContainer e (imageName p) net workerNode)
             (generateNames (sprintfOther e) (nat (Workers p))
                \<lparr>pattern = ClusterName p @ ''-worker-%d'', index = 0\<rparr>)
    \<and> errgroup_Wait (map (\<lambda>task. taskErr (snd task)) ms) = None
    \<and> errgroup_Wait (map (\<lambda>task. taskErr (snd task)) ws) = None
    \<and> waitDaemonReady (pings e) 0 [] = Some (tD, None)
    \<and> swarmInspect e = Inr (mt, wt)
    \<and> waitClusterReady (nodeLists e) (Managers p) (Workers p) 0 [] = Some (tC, None)
    \<and> t = Call (ImageList (imageName p))
          # (if PullImage p \<or> \<not> snd (imageAlreadyExist e (imageName p))
             then [Call (ImagePull (imageName p))] else [])
          @ Call (NetworkCreate (NetworkName p) (ipam p) (ClusterName p))
          # map Call (fst (runContainer e (imageName p) net primaryNode
               (Sprintf (sprintfOther e) (ClusterName p @ ''-manager-%d'') 0)))
          @ Call (ContainerInspect pcid)
          # errgroup_Go ms @ errgroup_Go ws @ tD
          @ Call (SwarmInit defaultSwarmListenAddr) # Call SwarmInspect
          # errgroup_Go (map (\<lambda>cid. execContainer e cid (joinCommand mt (JoinHostPort (take 12 pcid) ''2377'')))
                           (received (map snd ms)))
          @ errgroup_Go (map (\<lambda>cid. execContainer e cid (joinCommand wt (JoinHostPort (take 12 pcid) ''2377'')))
                           (received (map snd ws)))
          @ tC"
  using assms
  by (auto simp: CreateCluster_def andThen_eq_Ok orReturn_eq_Ok step_eq_Ok check_eq_Inr poll_eq_Ok
      runContainers_eq_Ok calls_def Let_def emit_eq_Some generateName_def
      split: if_splits)


lemma length_generateNames [simp]: "length (generateNames other n g) = n"
  by (induction n arbitrary: g) (simp_all add: generateName_def)

lemma filter_bySelf_map_Call [simp]: "filter (bySelf P) (map Call cs) = map Call (filter P cs)"
  by (induction cs) simp_all

lemma filter_byTask_map_Call [simp]: "filter (byTask P) (map Call cs) = []"
  by (induction cs) simp_all

lemma filter_bySelf_map_Go [simp]: "filter (bySelf P) (map Go cs) = []"
  by (induction cs) simp_all

lemma filter_byTask_map_Go [simp]: "filter (byTask P) (map Go cs) = map Go (filter P cs)"
  by (induction cs) simp_all

lemma filter_bySelf_errgroup_Go [simp]: "filter (bySelf P) (errgroup_Go tasks) = []"
  by (induction tasks) simp_all

lemma filter_byTask_errgroup_Go:
  "filter (byTask P) (errgroup_Go tasks) = map Go (filter P (concat (map fst tasks)))"
  by (induction tasks) simp_all

lemma count_create_runContainer:
  "length (filter (isCreate r) (fst (runContainer e img net role name))) = (if r = role then 1 else 0)"
  by (auto simp: runContainer_def split: sum.splits option.splits)

lemma count_create_runContainers:
  "length (filter (byTask (isCreate r)) (errgroup_Go (map (runContainer e img net role) names)))
     = (if r = role then length names else 0)"
  by (induction names) (simp_all add: count_create_runContainer)

lemma no_other_create_runContainers:
  "r \<noteq> role \<Longrightarrow> filter (byTask (isCreate r)) (errgroup_Go (map (runContainer e img net role) names)) = []"
  using count_create_runContainers [of r e img net role names] by simp

lemma byTask_tasks_Nil:
  "(\<And>x. filter P (fst (f x)) = []) \<Longrightarrow> filter (byTask P) (errgroup_Go (map f xs)) = []"
  by (induction xs) simp_all

lemma runContainer_no_swarm_call [simp]:
  "filter isSwarmInit (fst (runContainer e img net role name)) = []"
  "filter isSwarmInspect (fst (runContainer e img net role name)) = []"
  "filter isExec (fst (runContainer e img net role name)) = []"
  by (auto simp: runContainer_def split: sum.splits option.splits)

lemma execContainer_calls [simp]:
  "filter (isCreate r) (fst (execContainer e cid cmd)) = []"
  "filter isSwarmInit (fst (execContainer e cid cmd)) = []"
  "filter isSwarmInspect (fst (execContainer e cid cmd)) = []"
  by (auto simp: execContainer_def split: sum.splits)

lemma execCreates_append [simp]: "execCreates (a @ b) = execCreates a @ execCreates b"
  by (induction a rule: execCreates.induct) simp_all

lemma execCreates_map_Call [simp]: "execCreates (map Call cs) = []"
  by (induction cs) simp_all

lemma execCreates_Call [simp]: "execCreates (Call c # t) = execCreates t"
  by simp

lemma execCreates_replicate_Call [simp]: "execCreates (replicate k (Call c)) = []"
  by (induction k) simp_all

lemma execCreates_runContainers [simp]:
  "execCreates (errgroup_Go (map (runContainer e img net role) names)) = []"
  by (induction names) (auto simp: runContainer_def split: sum.splits option.splits)

lemma execCreates_execContainers [simp]:
  "execCreates (errgroup_Go (map (\<lambda>cid. execContainer e cid cmd) cids)) = map (\<lambda>cid. (cid, cmd)) cids"
  by (induction cids) (auto simp: execContainer_def split: sum.splits)

lemma length_received:
  "errgroup_Wait (map (\<lambda>task. taskErr (snd task)) tasks) = None
     \<Longrightarrow> length (received (map snd tasks)) = length tasks"
proof (induction tasks)
  case Nil
  then show ?case by simp
next
  case (Cons task tasks)
  then show ?case
    by (cases "snd task") simp_all
qed

lemma waitDaemonReady_pings:
  assumes "waitDaemonReady ps 0 [] = Some (tD, r)"
  shows "\<exists>k. tD = replicate k (Call Ping)"
  using waitDaemonReady_result [OF assms]
  by (auto simp del: replicate_Suc simp: replicate_Suc [symmetric])

lemma waitClusterReady_lists:
  assumes "waitClusterReady ns m w 0 [] = Some (tC, r)"
  shows "\<exists>k. tC = replicate k (Call NodeList)"
  using waitClusterReady_result [OF assms]
  by (auto simp del: replicate_Suc simp: replicate_Suc [symmetric])

text \<open>
  Claim C3. A run of \<^verbatim>\<open>CreateCluster\<close> that returns a cluster was given
  \<open>Managers = N \<ge> 1\<close> and \<open>Workers = W \<ge> 0\<close>, and it holds: exactly one creation of
  the primary node, made sequentially; \<open>N - 1\<close> creations of manager nodes and \<open>W\<close>
  creations of worker nodes, all made by tasks of an error group; exactly one
  cluster-initialization call and exactly one join-token retrieval, both sequential; and
  \<open>N - 1 + W\<close> commands dispatched by tasks, which are \<open>N - 1\<close> join commands with the
  manager token retrieved followed by \<open>W\<close> join commands with the worker token.
\<close>

theorem successful_run_call_counts:
  assumes "CreateCluster e p = Some (t, Ok c)"
  shows "1 \<le> Managers p \<and> 0 \<le> Workers p
       \<and> length (filter (bySelf (isCreate primaryNode)) t) = 1
       \<and> filter (byTask (isCreate primaryNode)) t = []
       \<and> int (length (filter (byTask (isCreate managerNode)) t)) = Managers p - 1
       \<and> filter (bySelf (isCreate managerNode)) t = []
       \<and> int (length (filter (byTask (isCreate workerNode)) t)) = Workers p
       \<and> filter (bySelf (isCreate workerNode)) t = []
       \<and> length (filter (bySelf isSwarmInit) t) = 1 \<and> filter (byTask isSwarmInit) t = []
       \<and> length (filter (bySelf isSwarmInspect) t) = 1 \<and> filter (byTask isSwarmInspect) t = []
       \<and> filter (bySelf isExec) t = []
       \<and> int (length (execCreates t)) = Managers p - 1 + Workers p
       \<and> (\<exists>managerToken workerToken managerAddr managerNodeCIDs workerNodeCIDs.
             swarmInspect e = Inr (managerToken, workerToken)
           \<and> int (length managerNodeCIDs) = Managers p - 1
           \<and> int (length workerNodeCIDs) = Workers p
           \<and> execCreates t = map (\<lambda>cid. (cid, joinCommand managerToken managerAddr)) managerNodeCIDs
                            @ map (\<lambda>cid. (cid, joinCommand workerToken managerAddr)) workerNodeCIDs)"
proof -
  from CreateCluster_Ok_run [OF assms] obtain net pcid mt wt tD tC ms ws where
    v: "validate p = None"
    and ms: "ms = map (runContainer e (imageName p) net managerNode)
             (generateNames (sprintfOther e) (nat (managersToRun p))
                \<lparr>pattern = ClusterName p @ ''-manager-%d'', index = 1\<rparr>)"
    and ws: "ws = map (runContainer e (imageName p) net workerNode)
             (generateNames (sprintfOther e) (nat (Workers p))
                \<lparr>pattern = ClusterName p @ ''-worker-%d'', index = 0\<rparr>)"
    and mok: "errgroup_Wait (map (\<lambda>task. taskErr (snd task)) ms) = None"
    and wok: "errgroup_Wait (map (\<lambda>task. taskErr (snd task)) ws) = None"
    and d: "waitDaemonReady (pings e) 0 [] = Some (tD, None)"
    and tok: "swarmInspect e = Inr (mt, wt)"
    and cl: "waitClusterReady (nodeLists e) (Managers p) (Workers p) 0 [] = Some (tC, None)"
    and t: "t = Call (ImageList (imageName p))
          # (if PullImage p \<or> \<not> snd (imageAlreadyExist e (imageName p))
             then [Call (ImagePull (imageName p))] else [])
          @ Call (NetworkCreate (NetworkName p) (ipam p) (ClusterName p))
          # map Call (fst (runContainer e (imageName p) net primaryNode
               (Sprintf (sprintfOther e) (ClusterName p @ ''-manager-%d'') 0)))
          @ Call (ContainerInspect pcid)
          # errgroup_Go ms @ errgroup_Go ws @ tD
          @ Call (SwarmInit defaultSwarmListenAddr) # Call SwarmInspect
          # errgroup_Go (map (\<lambda>cid. execContainer e cid (joinCommand mt (JoinHostPort (take 12 pcid) ''2377'')))
                           (received (map snd ms)))
          @ errgroup_Go (map (\<lambda>cid. execContainer e cid (joinCommand wt (JoinHostPort (take 12 pcid) ''2377'')))
                           (received (map snd ws)))
          @ tC"
    by blast
  from v have n: "1 \<le> Managers p" "0 \<le> Workers p"
    by (auto simp: validate_def split: if_splits)
  from d obtain kd where tD: "tD = replicate kd (Call Ping)"
    using waitDaemonReady_pings by blast
  from cl obtain kc where tC: "tC = replicate kc (Call NodeList)"
    using waitClusterReady_lists by blast
  have lm: "int (length (received (map snd ms))) = Managers p - 1"
    using length_received [OF mok] n by (simp add: ms managersToRun_def)
  have lw: "int (length (received (map snd ws))) = Workers p"
    using length_received [OF wok] n by (simp add: ws)
  have lms: "int (length ms) = Managers p - 1" and lws: "int (length ws) = Workers p"
    using n by (simp_all add: ms ws managersToRun_def)
  have ec: "execCreates t =
      map (\<lambda>cid. (cid, joinCommand mt (JoinHostPort (take 12 pcid) ''2377''))) (received (map snd ms))
    @ map (\<lambda>cid. (cid, joinCommand wt (JoinHostPort (take 12 pcid) ''2377''))) (received (map snd ws))"
    unfolding t tD tC by (simp add: ms ws)
  have c1: "length (filter (bySelf (isCreate primaryNode)) t) = 1"
    unfolding t tD tC by (simp add: count_create_runContainer)
  have c2: "filter (byTask (isCreate primaryNode)) t = []"
    unfolding t tD tC ms ws
    by (simp add: no_other_create_runContainers byTask_tasks_Nil)
  have c3: "int (length (filter (byTask (isCreate managerNode)) t)) = Managers p - 1"
    unfolding t tD tC
    using lms by (simp add: byTask_tasks_Nil) (simp add: ms ws count_create_runContainers)
  have c4: "filter (bySelf (isCreate managerNode)) t = []"
    unfolding t tD tC
    using count_create_runContainer [of managerNode e "imageName p" net primaryNode]
    by simp
  have c5: "int (length (filter (byTask (isCreate workerNode)) t)) = Workers p"
    unfolding t tD tC
    using lws by (simp add: byTask_tasks_Nil) (simp add: ms ws count_create_runContainers)
  have c6: "filter (bySelf (isCreate workerNode)) t = []"
    unfolding t tD tC
    using count_create_runContainer [of workerNode e "imageName p" net primaryNode]
    by simp
  have c7: "length (filter (bySelf isSwarmInit) t) = 1 \<and> filter (byTask isSwarmInit) t = []"
    unfolding t tD tC ms ws by (simp add: byTask_tasks_Nil)
  have c8: "length (filter (bySelf isSwarmInspect) t) = 1 \<and> filter (byTask isSwarmInspect) t = []"
    unfolding t tD tC ms ws by (simp add: byTask_tasks_Nil)
  have c9: "filter (bySelf isExec) t = []"
    unfolding t tD tC by simp
  have c10: "int (length (execCreates t)) = Managers p - 1 + Workers p"
    unfolding ec using lm lw by simp
  have c11: "\<exists>managerToken workerToken managerAddr managerNodeCIDs workerNodeCIDs.
             swarmInspect e = Inr (managerToken, workerToken)
           \<and> int (length managerNodeCIDs) = Managers p - 1
           \<and> int (length workerNodeCIDs) = Workers p
           \<and> execCreates t = map (\<lambda>cid. (cid, joinCommand managerToken managerAddr)) managerNodeCIDs
                            @ map (\<lambda>cid. (cid, joinCommand workerToken managerAddr)) workerNodeCIDs"
    using tok lm lw ec by blast
  from n c1 c2 c3 c4 c5 c6 c7 c8 c9 c10 c11 show ?thesis
    by (intro conjI) simp_all
qed


theorem successful_run_witness:
  "CreateCluster sampleEnv sampleParams = Some (sampleTrace, Ok sampleCluster)
   \<and> Managers sampleParams = 3 \<and> Workers sampleParams = 2
   \<and> length (filter (bySelf (isCreate primaryNode)) sampleTrace) = 1
   \<and> length (filter (byTask (isCreate managerNode)) sampleTrace) = 2
   \<and> length (filter (byTask (isCreate workerNode)) sampleTrace) = 2
   \<and> length (filter (bySelf isSwarmInit) sampleTrace) = 1
   \<and> length (filter (bySelf isSwarmInspect) sampleTrace) = 1
   \<and> execCreates sampleTrace =
        [(''0123456789ab-sind-manager-1'', sampleJoin ''SWMTKN-manager''),
         (''0123456789ab-sind-manager-2'', sampleJoin ''SWMTKN-manager''),
         (''0123456789ab-sind-worker-0'', sampleJoin ''SWMTKN-worker''),
         (''0123456789ab-sind-worker-1'', sampleJoin ''SWMTKN-worker'')]"
proof -
  have "execCreates sampleTrace =
        [(''0123456789ab-sind-manager-1'', sampleJoin ''SWMTKN-manager''),
         (''0123456789ab-sind-manager-2'', sampleJoin ''SWMTKN-manager''),
         (''0123456789ab-sind-worker-0'', sampleJoin ''SWMTKN-worker''),
         (''0123456789ab-sind-worker-1'', sampleJoin ''SWMTKN-worker'')]"
    by (simp add: sampleTrace_def)
  moreover from successful_run_call_counts [OF sample_run]
  have "length (filter (bySelf (isCreate primaryNode)) sampleTrace) = 1
   \<and> length (filter (byTask (isCreate managerNode)) sampleTrace) = 2
   \<and> length (filter (byTask (isCreate workerNode)) sampleTrace) = 2
   \<and> length (filter (bySelf isSwarmInit) sampleTrace) = 1
   \<and> length (filter (bySelf isSwarmInspect) sampleTrace) = 1"
    by (simp add: sampleParams_def)
  ultimately show ?thesis
    using sample_run by (simp add: sampleParams_def)
qed

text \<open>
  Claim C9 says that the archive created for distribution is gone on every exit path of
  \<^verbatim>\<open>PushImage\<close>, the failure of the preparation being set apart because no archive
  would exist then. On the sample host with a tar writer that cannot be closed, the run
  of \<^verbatim>\<open>PushImage\<close> creates the tar file \<^verbatim>\<open>/tmp/tar_img_sind42\<close>, fails in the
  preparation and returns before its own \<^verbatim>\<open>defer\<close> is set up: the image file is
  removed, the archive is not.
\<close>

theorem tar_file_is_left_behind:
  "tempFile tarCloseFailsEnv ''tar_img_sind'' = Inr ''/tmp/tar_img_sind42''
   \<and> PushImage tarCloseFailsEnv sampleCluster [''alpine'']
     = Some ([Call (TempFile ''img_sind''), Call (ImageSave [''alpine'']),
              Call (TempFile ''tar_img_sind''), Call (OsRemove ''/tmp/img_sind42'')],
             Err (ErrorString ''unable to prepare the archive: unable to close the tar writer properly (wrote 0): no space left on device''))"
  by code_simp

subsection \<open>Node names\<close>

text \<open>
  The name generator hands the cluster name to \<^verbatim>\<open>fmt.Sprintf\<close> as part of the format.
  A cluster name free of \<^verbatim>\<open>%\<close> gives the names of the sample run above; one that
  holds a verb is interpreted: whatever the index,
\<close>

lemma generateName_percent:
  "fst (generateName other \<lparr>pattern = ''%T'' @ ''-manager-%d'', index = i\<rparr>) = ''int-manager-%!d(MISSING)''"
  by (simp add: generateName_def Sprintf_def)

text \<open>
  Claim C2 asks, for every cluster name, for pairwise distinct node names of the form
  \<^verbatim>\<open><cluster>-manager-<i>\<close> and \<^verbatim>\<open><cluster>-worker-<i>\<close>. With the cluster name
  \<^verbatim>\<open>%T\<close>, which validation accepts, the verb takes the index as its operand and
  prints its type, and the \<^verbatim>\<open>%d\<close> of the pattern finds no operand left: the three
  managers are all asked for under one name, the two workers under another, and neither
  name has the form asked for.
\<close>

theorem cluster_name_is_read_as_a_format:
  "validate percentParams = None
   \<and> map_option (\<lambda>run. containerNames (fst run)) (CreateCluster sampleEnv percentParams)
     = Some [''int-manager-%!d(MISSING)'', ''int-manager-%!d(MISSING)'', ''int-manager-%!d(MISSING)'',
             ''int-worker-%!d(MISSING)'', ''int-worker-%!d(MISSING)'']"
  by code_simp

subsection \<open>The order of the bootstrap\<close>

lemma follows_append:
  "follows s (a @ b) = (case follows s a of None \<Rightarrow> None | Some s' \<Rightarrow> follows s' b)"
  by (induction a arbitrary: s) (auto split: option.splits)

lemma advance_rank: "advance s ev = Some s' \<Longrightarrow> rank s \<le> rank s'"
  by (induction s ev rule: advance.induct) (auto split: if_splits)

lemma follows_rank: "follows s t = Some s' \<Longrightarrow> rank s \<le> rank s'"
proof (induction t arbitrary: s)
  case Nil
  then show ?case by simp
next
  case (Cons ev t)
  then show ?case
    by (auto split: option.splits dest!: advance_rank) fastforce
qed

lemma advance_init:
  "advance s ev = Some s' \<Longrightarrow>
     anyCall isSwarmInit ev \<longleftrightarrow> rank s < 2 \<and> 2 \<le> rank s'"
  by (induction s ev rule: advance.induct) (auto split: if_splits)

lemma advance_inspect:
  "advance s ev = Some s' \<Longrightarrow>
     anyCall isSwarmInspect ev \<longleftrightarrow> rank s < 3 \<and> 3 \<le> rank s'"
  by (induction s ev rule: advance.induct) (auto split: if_splits)

lemma advance_exec:
  "advance s ev = Some s' \<Longrightarrow> anyCall isExec ev \<Longrightarrow> 3 \<le> rank s \<and> rank s' = 4"
  by (induction s ev rule: advance.induct) (auto split: if_splits)

lemma advance_ping:
  "advance s ev = Some s' \<Longrightarrow> anyCall isPing ev \<Longrightarrow> rank s' = 1"
  by (induction s ev rule: advance.induct) (auto split: if_splits)


lemma follows_count_init:
  "follows s t = Some s' \<Longrightarrow>
     length (filter (anyCall isSwarmInit) t) = (if rank s < 2 \<and> 2 \<le> rank s' then 1 else 0)"
proof (induction t arbitrary: s)
  case Nil
  then show ?case by auto
next
  case (Cons ev t)
  then obtain s1 where a: "advance s ev = Some s1" and f: "follows s1 t = Some s'"
    by (auto split: option.splits)
  from advance_rank [OF a] follows_rank [OF f] advance_init [OF a] Cons.IH [OF f]
  show ?case by auto
qed

lemma follows_count_inspect:
  "follows s t = Some s' \<Longrightarrow>
     length (filter (anyCall isSwarmInspect) t) = (if rank s < 3 \<and> 3 \<le> rank s' then 1 else 0)"
proof (induction t arbitrary: s)
  case Nil
  then show ?case by auto
next
  case (Cons ev t)
  then obtain s1 where a: "advance s ev = Some s1" and f: "follows s1 t = Some s'"
    by (auto split: option.splits)
  from advance_rank [OF a] follows_rank [OF f] advance_inspect [OF a] Cons.IH [OF f]
  show ?case by auto
qed

lemma follows_no_ping:
  "follows s t = Some s' \<Longrightarrow> 2 \<le> rank s \<Longrightarrow> \<forall>x\<in>set t. \<not> anyCall isPing x"
proof (induction t arbitrary: s)
  case Nil
  then show ?case by simp
next
  case (Cons ev t)
  then obtain s1 where a: "advance s ev = Some s1" and f: "follows s1 t = Some s'"
    by (auto split: option.splits)
  from advance_rank [OF a] Cons.prems(2) have "2 \<le> rank s1" by simp
  from Cons.IH [OF f this] advance_ping [OF a] advance_rank [OF a] Cons.prems(2)
  show ?case by auto
qed

lemma follows_some_ping:
  "follows s t = Some s' \<Longrightarrow> rank s = 0 \<Longrightarrow> 1 \<le> rank s' \<Longrightarrow> \<exists>x\<in>set t. anyCall isPing x"
proof (induction t arbitrary: s)
  case Nil
  then show ?case by simp
next
  case (Cons ev t)
  then obtain s1 where a: "advance s ev = Some s1" and f: "follows s1 t = Some s'"
    by (auto split: option.splits)
  show ?case
  proof (cases "anyCall isPing ev")
    case True
    then show ?thesis by simp
  next
    case False
    with a Cons.prems(2) have "rank s1 = 0"
      by (induction s ev rule: advance.induct) (auto split: if_splits)
    from Cons.IH [OF f this Cons.prems(3)] show ?thesis by simp
  qed
qed

lemma follows_split:
  assumes "follows s (a @ ev # b) = Some s'"
  obtains s1 s2 where "follows s a = Some s1" and "advance s1 ev = Some s2" and "follows s2 b = Some s'"
  using assms by (auto simp: follows_append split: option.splits)

lemma staged_andThen:
  assumes "staged e s m Q" and "\<And>s' x. Q s' x \<Longrightarrow> staged e s' (k x) R"
  shows "staged e s (andThen m k) R"
  unfolding staged_def
proof (intro allI impI)
  fix t r
  assume run: "andThen m k = Some (t, r)"
  then obtain t1 r1 where m: "m = Some (t1, r1)"
    by (cases m) auto
  with assms(1) have "\<exists>s1. follows s t1 = Some s1 \<and> reached e s1 \<and> (\<forall>x. r1 = Ok x \<longrightarrow> Q s1 x)"
    unfolding staged_def by (elim allE [of _ t1] allE [of _ r1]) simp
  then obtain s1 where s1: "follows s t1 = Some s1" "reached e s1" "\<forall>x. r1 = Ok x \<longrightarrow> Q s1 x"
    by blast
  show "\<exists>s'. follows s t = Some s' \<and> reached e s' \<and> (\<forall>x. r = Ok x \<longrightarrow> R s' x)"
  proof (cases r1)
    case (Ok x)
    with run m obtain t2 where k: "k x = Some (t2, r)" and t: "t = t1 @ t2"
      by (auto simp: emit_eq_Some)
    from s1 Ok have "Q s1 x" by simp
    from assms(2) [OF this] have "staged e s1 (k x) R" .
    with k have "\<exists>s2. follows s1 t2 = Some s2 \<and> reached e s2 \<and> (\<forall>y. r = Ok y \<longrightarrow> R s2 y)"
      unfolding staged_def by (elim allE [of _ t2] allE [of _ r]) simp
    then obtain s2 where
      "follows s1 t2 = Some s2" "reached e s2" "\<forall>y. r = Ok y \<longrightarrow> R s2 y"
      by blast
    with s1 t show ?thesis
      by (auto simp: follows_append)
  next
    case (Err err)
    with run m s1 show ?thesis by auto
  next
    case Panic
    with run m s1 show ?thesis by auto
  qed
qed

lemma staged_orReturn: "staged e s m Q \<Longrightarrow> staged e s (orReturn p m) Q"
  unfolding staged_def
  by (auto simp: orReturn_def split: option.splits res.splits)

lemma staged_step:
  "follows s t = Some s' \<Longrightarrow> reached e s' \<Longrightarrow> staged e s (step (t, v)) (\<lambda>s'' x. s'' = s' \<and> v = Inr x)"
  unfolding staged_def by (cases v) auto

lemma staged_call:
  assumes "follows s t = Some s'" and "reached e s'"
    and "\<And>x. v = Inr x \<Longrightarrow> staged e s' (k x) R"
  shows "staged e s (andThen (orReturn p (step (t, v))) k) R"
  by (rule staged_andThen [OF staged_orReturn [OF staged_step [OF assms(1,2)]]]) (simp add: assms(3))

lemma staged_emit:
  assumes "follows s t = Some s'" and "staged e s' m R"
  shows "staged e s (emit t m) R"
  using assms unfolding staged_def
  by (auto simp: emit_eq_Some follows_append)

lemma staged_halt:
  "reached e s \<Longrightarrow> (\<And>x. r = Ok x \<Longrightarrow> Q s x) \<Longrightarrow> staged e s (Some ([], r)) Q"
  unfolding staged_def by auto

lemma staged_weaken:
  assumes "staged e s m Q" and "\<And>s' x. Q s' x \<Longrightarrow> Q' s' x"
  shows "staged e s m Q'"
  unfolding staged_def
proof (intro allI impI)
  fix t r
  assume "m = Some (t, r)"
  with assms(1) have "\<exists>s'. follows s t = Some s' \<and> reached e s' \<and> (\<forall>x. r = Ok x \<longrightarrow> Q s' x)"
    unfolding staged_def by (elim allE [of _ t] allE [of _ r]) simp
  then obtain s' where s': "follows s t = Some s'" "reached e s'" "\<forall>x. r = Ok x \<longrightarrow> Q s' x"
    by blast
  from s'(3) assms(2) have "\<forall>x. r = Ok x \<longrightarrow> Q' s' x"
    by simp
  with s'(1,2) show "\<exists>s'. follows s t = Some s' \<and> reached e s' \<and> (\<forall>x. r = Ok x \<longrightarrow> Q' s' x)"
    by (intro exI [of _ s'] conjI)
qed

lemma staged_if:
  "(c \<Longrightarrow> staged e s a Q) \<Longrightarrow> (\<not> c \<Longrightarrow> staged e s b Q) \<Longrightarrow> staged e s (if c then a else b) Q"
  by simp

lemma reached_early [simp]: "reached e Provisioning" "reached e Waiting"
  by (simp_all add: reached_def)


lemma advance_provisioning_Call: "\<not> isBootstrap c \<Longrightarrow> advance Provisioning (Call c) = Some Provisioning"
  by (cases c) simp_all

lemma advance_provisioning_Go: "\<not> isBootstrap c \<Longrightarrow> advance Provisioning (Go c) = Some Provisioning"
  by (cases c) simp_all

lemma runContainer_provisions: "c \<in> set (fst (runContainer e img net role name)) \<Longrightarrow> \<not> isBootstrap c"
  by (auto simp: runContainer_def split: sum.splits option.splits)

lemma follows_runContainer [simp]:
  "follows Provisioning (map Call (fst (runContainer e img net role name))) = Some Provisioning"
  by (auto simp: runContainer_def split: sum.splits option.splits)

lemma follows_runContainers [simp]:
  "follows Provisioning (errgroup_Go (map (runContainer e img net role) names)) = Some Provisioning"
  by (induction names) (auto simp: runContainer_def follows_append split: sum.splits option.splits)

lemma staged_runContainers:
  "staged e Provisioning (runContainers e n img net role g) (\<lambda>s' cids. s' = Provisioning)"
  unfolding staged_def runContainers_def Let_def
  by (auto split: if_splits option.splits)



lemma follows_pings:
  "follows Provisioning (replicate (Suc k) (Call Ping)) = Some Waiting"
  "follows Waiting (replicate k (Call Ping)) = Some Waiting"
  by (induction k) simp_all

lemma follows_pings_any:
  "\<exists>s. follows Provisioning (replicate k (Call Ping)) = Some s \<and> rank s \<le> 1"
  by (cases k) (simp_all add: follows_pings del: replicate_Suc)

lemma staged_poll_daemon:
  "staged e Provisioning (poll (waitDaemonReady (pings e) 0 []))
     (\<lambda>s' x. s' = Waiting \<and> (\<exists>tD. waitDaemonReady (pings e) 0 [] = Some (tD, None)))"
  unfolding staged_def
proof (intro allI impI)
  fix t r
  assume "poll (waitDaemonReady (pings e) 0 []) = Some (t, r)"
  then obtain rD where w: "waitDaemonReady (pings e) 0 [] = Some (t, rD)"
    and r: "r = (case rD of None \<Rightarrow> Ok () | Some err \<Rightarrow> Err err)"
    by (auto simp: poll_def check_def split: option.splits)
  from waitDaemonReady_result [OF w]
  consider n where "rD = None" "t = replicate (Suc n) (Call Ping)"
    | n cerr where "rD = Some cerr" "t = replicate n (Call Ping)"
    by auto
  then show "\<exists>s'. follows Provisioning t = Some s' \<and> reached e s' \<and>
               (\<forall>x. r = Ok x \<longrightarrow> s' = Waiting \<and> (\<exists>tD. waitDaemonReady (pings e) 0 [] = Some (tD, None)))"
  proof cases
    case 1
    with w show ?thesis
      by (auto simp: follows_pings simp del: replicate_Suc)
  next
    case 2
    from follows_pings_any [of n] obtain s where "follows Provisioning (replicate n (Call Ping)) = Some s" "rank s \<le> 1"
      by blast
    with 2 r show ?thesis
      by (auto simp: reached_def)
  qed
qed



lemma rank_ge_3: "3 \<le> rank s \<longleftrightarrow> s = TokensKnown \<or> s = Joining \<or> s = Converging"
  by (cases s) simp_all

lemma follows_lists:
  "3 \<le> rank s \<Longrightarrow> follows s (replicate (Suc k) (Call NodeList)) = Some Converging"
proof (induction k arbitrary: s)
  case 0
  then show ?case by (simp add: rank_ge_3)
next
  case (Suc k)
  have "follows s (replicate (Suc (Suc k)) (Call NodeList))
      = follows Converging (replicate (Suc k) (Call NodeList))"
    using Suc.prems by (simp add: rank_ge_3)
  also have "\<dots> = Some Converging"
    by (rule Suc.IH) simp
  finally show ?case .
qed

lemma staged_poll_cluster:
  assumes "s = TokensKnown \<or> s = Joining"
    and "\<exists>tD. waitDaemonReady (pings e) 0 [] = Some (tD, None)"
    and "\<exists>tokens. swarmInspect e = Inr tokens"
  shows "staged e s (poll (waitClusterReady (nodeLists e) m w 0 [])) (\<lambda>s' x. s' = Converging)"
  unfolding staged_def
proof (intro allI impI)
  fix t r
  assume "poll (waitClusterReady (nodeLists e) m w 0 []) = Some (t, r)"
  then obtain rC where c: "waitClusterReady (nodeLists e) m w 0 [] = Some (t, rC)"
    and r: "r = (case rC of None \<Rightarrow> Ok () | Some err \<Rightarrow> Err err)"
    by (auto simp: poll_def check_def split: option.splits)
  have rs: "reached e s" "reached e Converging" "3 \<le> rank s"
    using assms by (auto simp: reached_def)
  from waitClusterReady_result [OF c]
  consider n where "rC = None" "t = replicate (Suc n) (Call NodeList)"
    | n cerr where "rC = Some cerr" "t = replicate n (Call NodeList)"
    by auto
  then show "\<exists>s'. follows s t = Some s' \<and> reached e s' \<and> (\<forall>x. r = Ok x \<longrightarrow> s' = Converging)"
  proof cases
    case 1
    with rs show ?thesis
      by (auto simp: follows_lists simp del: replicate_Suc)
  next
    case 2
    with rs r show ?thesis
      by (cases n) (auto simp: follows_lists simp del: replicate_Suc)
  qed
qed

lemma follows_joins:
  "s = TokensKnown \<or> s = Joining \<Longrightarrow>
   follows s (errgroup_Go (map (\<lambda>cid. execContainer e cid (cmd cid)) cids))
     = Some (if cids = [] then s else Joining)"
  by (induction cids arbitrary: s) (auto simp: execContainer_def follows_append split: sum.splits)

lemma staged_value:
  "follows s t = Some s' \<Longrightarrow> reached e s' \<Longrightarrow> staged e s (Some (t, Ok x)) (\<lambda>s'' y. s'' = s')"
  unfolding staged_def by auto

lemma staged_joins:
  assumes "\<exists>tD. waitDaemonReady (pings e) 0 [] = Some (tD, None)"
    and "\<exists>tokens. swarmInspect e = Inr tokens"
  shows "staged e TokensKnown
           (step (errgroup_Go (map (\<lambda>cid. execContainer e cid (c1 cid)) ms
                             @ map (\<lambda>cid. execContainer e cid (c2 cid)) ws), v))
           (\<lambda>s' x. s' = TokensKnown \<or> s' = Joining)"
proof -
  have r: "reached e TokensKnown" "reached e Joining"
    using assms by (simp_all add: reached_def)
  have f: "follows TokensKnown (errgroup_Go (map (\<lambda>cid. execContainer e cid (c1 cid)) ms
                             @ map (\<lambda>cid. execContainer e cid (c2 cid)) ws))
         = Some (if ms = [] \<and> ws = [] then TokensKnown else Joining)"
    by (simp add: follows_append follows_joins)
  show ?thesis
    unfolding staged_def using r f by (cases v) auto
qed

lemma staged_case_prod:
  "(\<And>a b. x = (a, b) \<Longrightarrow> staged e s (f a b) Q) \<Longrightarrow> staged e s (case x of (a, b) \<Rightarrow> f a b) Q"
  by (cases x) simp

lemma CreateCluster_staged: "staged e Provisioning (CreateCluster e p) (\<lambda>s c. s = Converging)"
  unfolding CreateCluster_def Let_def generateName_def prod.case calls_def
  apply (rule staged_call [where s' = Provisioning], simp, simp)
  apply (rule staged_call [where s' = Provisioning], simp, simp)
  apply (rule staged_andThen [where Q = "\<lambda>s' x. s' = Provisioning"])
   apply (simp add: imageAlreadyExist_def staged_def)
  apply clarify
  apply (rule staged_andThen [where Q = "\<lambda>s' x. s' = Provisioning"])
   apply (rule staged_if)
    apply (rule staged_call [where s' = Provisioning], simp, simp)
    apply (rule staged_orReturn)
    apply (rule staged_weaken [OF staged_step [where s' = Provisioning]], simp, simp, simp)
   apply (simp add: staged_def)
  apply clarify
  apply (rule staged_call [where s' = Provisioning], simp, simp)
  apply (rule staged_call [where s' = Provisioning], simp, simp)
  apply (rule staged_call [where s' = Provisioning], simp, simp)
  apply (rule staged_call [where s' = Provisioning], simp, simp)
  apply (rule staged_call [where s' = Provisioning], simp, simp)
  apply (rule staged_call [where s' = Provisioning], simp, simp)
  apply (rule staged_andThen [where Q = "\<lambda>s' x. s' = Provisioning"])
   apply (rule staged_orReturn)
   apply (rule staged_runContainers)
  apply clarify
  apply (rule staged_andThen [where Q = "\<lambda>s' x. s' = Provisioning"])
   apply (rule staged_orReturn)
   apply (rule staged_runContainers)
  apply clarify
  apply (rule staged_call [where s' = Provisioning], simp, simp)
  apply (rule staged_andThen [where Q = "\<lambda>s' x. s' = Waiting \<and> (\<exists>tD. waitDaemonReady (pings e) 0 [] = Some (tD, None))"])
   apply (rule staged_orReturn)
   apply (rule staged_poll_daemon)
  apply clarify
  apply (rule staged_call [where s' = Initialized], simp, simp add: reached_def)
  apply (rule staged_call [where s' = TokensKnown], simp, simp add: reached_def)
  apply (rule staged_case_prod)
  apply clarify
  apply (rule staged_if)
   apply (rule staged_halt, simp add: reached_def, simp)
  apply (rule staged_andThen [where Q = "\<lambda>s' x. s' = TokensKnown \<or> s' = Joining"])
   apply (rule staged_orReturn)
   apply (rule staged_joins, blast, blast)
  apply (rule staged_andThen [where Q = "\<lambda>s' x. s' = Converging"])
   apply (rule staged_orReturn)
   apply (rule staged_poll_cluster, assumption, blast, blast)
  apply clarify
  apply (simp add: staged_def reached_def)
  done

lemma advance_init_from:
  "advance s ev = Some s' \<Longrightarrow> anyCall isSwarmInit ev \<Longrightarrow> s = Waiting \<and> s' = Initialized"
  by (induction s ev rule: advance.induct) (auto split: if_splits)

lemma advance_inspect_from:
  "advance s ev = Some s' \<Longrightarrow> anyCall isSwarmInspect ev \<Longrightarrow> s = Initialized \<and> s' = TokensKnown"
  by (induction s ev rule: advance.induct) (auto split: if_splits)

lemma counted_once_occurs: "length (filter P xs) = 1 \<Longrightarrow> \<exists>x\<in>set xs. P x"
proof -
  assume "length (filter P xs) = 1"
  then have "filter P xs \<noteq> []" by auto
  then show ?thesis by (simp add: filter_empty_conv)
qed

text \<open>
  Claim C7 as stated fails: it asks for exactly one cluster initialization and one token
  retrieval in every run, failed runs included. On the sample host refusing the cluster
  network, \<^verbatim>\<open>CreateCluster\<close> returns its error after the image query and the network
  call, and the run holds neither an initialization nor a token retrieval.
\<close>

theorem failed_run_without_initialization:
  "CreateCluster networkFailsEnv sampleParams
     = Some ([Call (ImageList ''docker:18.09-dind''), Call (NetworkCreate ''sind_default'' None ''sind'')],
             Err (ErrorString ''unable to create cluster network: pool overlaps with other one on this address space''))
   \<and> length (filter (anyCall isSwarmInit)
        [Call (ImageList ''docker:18.09-dind''), Call (NetworkCreate ''sind_default'' None ''sind'')]) = 0
   \<and> length (filter (anyCall isSwarmInspect)
        [Call (ImageList ''docker:18.09-dind''), Call (NetworkCreate ''sind_default'' None ''sind'')]) = 0"
  by code_simp

text \<open>
  Claim C7, amended. In every run of \<^verbatim>\<open>CreateCluster\<close> that returns, with success or
  with an error: the cluster initialization and the token retrieval are each called at
  most once, and exactly once when the run succeeds; wherever the initialization is
  called, the wait for the daemon has returned \<^verbatim>\<open>nil\<close>, a probe of the daemon comes
  before it and none after it; wherever the tokens are retrieved, the initialization
  comes before; and wherever a command is dispatched or started in a container, the
  initialization and the token retrieval both come before it and the retrieval gave the
  tokens.
\<close>

theorem initialization_and_tokens_precede_joins:
  assumes "CreateCluster e p = Some (t, r)"
  shows "length (filter (anyCall isSwarmInit) t) \<le> 1
       \<and> length (filter (anyCall isSwarmInspect) t) \<le> 1
       \<and> (\<forall>c. r = Ok c \<longrightarrow> length (filter (anyCall isSwarmInit) t) = 1
                           \<and> length (filter (anyCall isSwarmInspect) t) = 1)
       \<and> (\<forall>a ev b. t = a @ ev # b \<and> anyCall isSwarmInit ev \<longrightarrow>
              (\<exists>tD. waitDaemonReady (pings e) 0 [] = Some (tD, None))
            \<and> (\<exists>x\<in>set a. anyCall isPing x) \<and> (\<forall>x\<in>set b. \<not> anyCall isPing x))
       \<and> (\<forall>a ev b. t = a @ ev # b \<and> anyCall isSwarmInspect ev \<longrightarrow>
              (\<exists>x\<in>set a. anyCall isSwarmInit x))
       \<and> (\<forall>a ev b. t = a @ ev # b \<and> anyCall isExec ev \<longrightarrow>
              (\<exists>x\<in>set a. anyCall isSwarmInit x) \<and> (\<exists>x\<in>set a. anyCall isSwarmInspect x)
            \<and> (\<exists>tokens. swarmInspect e = Inr tokens))"
proof -
  from CreateCluster_staged [of e p] assms
  have "\<exists>s. follows Provisioning t = Some s \<and> reached e s \<and> (\<forall>c. r = Ok c \<longrightarrow> s = Converging)"
    unfolding staged_def by (elim allE [of _ t] allE [of _ r]) simp
  then obtain s where f: "follows Provisioning t = Some s" and re: "reached e s"
    and ok: "\<forall>c. r = Ok c \<longrightarrow> s = Converging"
    by blast
  have c1: "length (filter (anyCall isSwarmInit) t) = (if 2 \<le> rank s then 1 else 0)"
    using follows_count_init [OF f] by simp
  have c2: "length (filter (anyCall isSwarmInspect) t) = (if 3 \<le> rank s then 1 else 0)"
    using follows_count_inspect [OF f] by simp
  have p3: "\<forall>c. r = Ok c \<longrightarrow> length (filter (anyCall isSwarmInit) t) = 1
                           \<and> length (filter (anyCall isSwarmInspect) t) = 1"
    using ok c1 c2 by auto
  have p4: "(\<exists>tD. waitDaemonReady (pings e) 0 [] = Some (tD, None))
            \<and> (\<exists>x\<in>set a. anyCall isPing x) \<and> (\<forall>x\<in>set b. \<not> anyCall isPing x)"
    if "t = a @ ev # b" and "anyCall isSwarmInit ev" for a ev b
  proof -
    from f that(1) obtain s1 s2 where fa: "follows Provisioning a = Some s1"
      and ad: "advance s1 ev = Some s2" and fb: "follows s2 b = Some s"
      by (auto elim: follows_split)
    from advance_init_from [OF ad that(2)] have s12: "s1 = Waiting" "s2 = Initialized"
      by simp_all
    from follows_rank [OF fb] s12 have "2 \<le> rank s" by simp
    with re have "\<exists>tD. waitDaemonReady (pings e) 0 [] = Some (tD, None)"
      by (simp add: reached_def)
    moreover from follows_some_ping [OF fa] s12 have "\<exists>x\<in>set a. anyCall isPing x"
      by simp
    moreover from follows_no_ping [OF fb] s12 have "\<forall>x\<in>set b. \<not> anyCall isPing x"
      by simp
    ultimately show ?thesis by simp
  qed
  have p5: "\<exists>x\<in>set a. anyCall isSwarmInit x"
    if "t = a @ ev # b" and "anyCall isSwarmInspect ev" for a ev b
  proof -
    from f that(1) obtain s1 s2 where fa: "follows Provisioning a = Some s1"
      and ad: "advance s1 ev = Some s2" and fb: "follows s2 b = Some s"
      by (auto elim: follows_split)
    from advance_inspect_from [OF ad that(2)] have "s1 = Initialized"
      by simp
    with follows_count_init [OF fa] have "length (filter (anyCall isSwarmInit) a) = 1"
      by simp
    then show ?thesis by (rule counted_once_occurs)
  qed
  have p6: "(\<exists>x\<in>set a. anyCall isSwarmInit x) \<and> (\<exists>x\<in>set a. anyCall isSwarmInspect x)
            \<and> (\<exists>tokens. swarmInspect e = Inr tokens)"
    if "t = a @ ev # b" and "anyCall isExec ev" for a ev b
  proof -
    from f that(1) obtain s1 s2 where fa: "follows Provisioning a = Some s1"
      and ad: "advance s1 ev = Some s2" and fb: "follows s2 b = Some s"
      by (auto elim: follows_split)
    from advance_exec [OF ad that(2)] have r12: "3 \<le> rank s1" "rank s2 = 4"
      by simp_all
    from follows_count_init [OF fa] r12 have "length (filter (anyCall isSwarmInit) a) = 1"
      by simp
    then have i: "\<exists>x\<in>set a. anyCall isSwarmInit x" by (rule counted_once_occurs)
    from follows_count_inspect [OF fa] r12 have "length (filter (anyCall isSwarmInspect) a) = 1"
      by simp
    then have j: "\<exists>x\<in>set a. anyCall isSwarmInspect x" by (rule counted_once_occurs)
    from follows_rank [OF fb] r12 have "4 \<le> rank s" by simp
    with re have "\<exists>tokens. swarmInspect e = Inr tokens"
      by (simp add: reached_def)
    with i j show ?thesis by simp
  qed
  from c1 c2 p3 p4 p5 p6 show ?thesis
    by (intro conjI allI impI; (elim conjE)?) (simp_all)
qed


lemma sample_daemon_wait:
  "waitDaemonReady (pings sampleEnv) 0 [] = Some ([Call Ping, Call Ping, Call Ping], None)"
  by code_simp

theorem initialization_witness:
  "CreateCluster sampleEnv sampleParams = Some (sampleTrace, Ok sampleCluster)
   \<and> length (filter (anyCall isSwarmInit) sampleTrace) = 1
   \<and> length (filter (anyCall isSwarmInspect) sampleTrace) = 1
   \<and> sampleTrace = take 16 sampleTrace @ Call (SwarmInit ''0.0.0.0:2377'') # Call SwarmInspect # drop 18 sampleTrace
   \<and> filter (anyCall isExec) (take 18 sampleTrace) = []
   \<and> length (filter (anyCall isExec) (drop 18 sampleTrace)) = 8
   \<and> waitDaemonReady (pings sampleEnv) 0 [] = Some ([Call Ping, Call Ping, Call Ping], None)
   \<and> swarmInspect sampleEnv = Inr (''SWMTKN-manager'', ''SWMTKN-worker'')"
proof -
  from initialization_and_tokens_precede_joins [OF sample_run]
  have "length (filter (anyCall isSwarmInit) sampleTrace) = 1
      \<and> length (filter (anyCall isSwarmInspect) sampleTrace) = 1"
    by simp
  moreover have "sampleTrace = take 16 sampleTrace @ Call (SwarmInit ''0.0.0.0:2377'') # Call SwarmInspect # drop 18 sampleTrace"
    by (simp add: sampleTrace_def)
  moreover have "filter (anyCall isExec) (take 18 sampleTrace) = []"
    by (simp add: sampleTrace_def)
  moreover have "length (filter (anyCall isExec) (drop 18 sampleTrace)) = 8"
    by (simp add: sampleTrace_def)
  moreover have "swarmInspect sampleEnv = Inr (''SWMTKN-manager'', ''SWMTKN-worker'')"
    by (simp add: sampleEnv_def)
  ultimately show ?thesis
    using sample_run sample_daemon_wait by simp
qed

end
